theory Spec2Isabelle
  imports Main
begin

section \<open>ChartMuseum request handlers and index reconciliation (pkg/chartmuseum)\<close>

text \<open>
  A shallow embedding of \<^verbatim>\<open>handlers.go\<close> and \<^verbatim>\<open>server.go\<close> of package
  \<^verbatim>\<open>chartmuseum\<close>. The \<^verbatim>\<open>Server\<close> struct is a record that is passed
  through every function and returned updated. A Go \<^verbatim>\<open>error\<close> result is an
  \<open>error option\<close> (\<open>None\<close> is \<^verbatim>\<open>nil\<close>) beside the state, because the
  source mutates the server before it returns an error; a function that only reads returns
  \<open>error + 'a\<close>. The mutex \<^verbatim>\<open>StorageCacheLock\<close> is not modelled: every
  function below runs from its first to its last line without interleaving.
\<close>

subsection \<open>Data\<close>

type_synonym bytes = "nat list"

text \<open>\<^verbatim>\<open>storage.Object\<close>: the fields the handlers read, and the listing's
  identity meta (last-modified) that the diff compares.\<close>

record object =
  Path :: string
  Content :: bytes
  Meta :: nat

text \<open>\<^verbatim>\<open>helm_repo.ChartVersion\<close>: name and version are what the handlers log and
  what identifies an entry of the index.\<close>

record chartVersion =
  Name :: string
  Version :: string
  Created :: nat

text \<open>Go errors. \<^verbatim>\<open>repo.ErrorInvalidChartPackage\<close> is the sentinel that
  \<^verbatim>\<open>checkInvalidChartPackageError\<close> compares with; \<open>NotFound\<close> and
  \<open>TransientIO\<close> are the two kinds of backend error; \<open>Errorf\<close> is
  \<^verbatim>\<open>fmt.Errorf\<close> and any other error value, by its message.\<close>

datatype error =
    ErrorInvalidChartPackage
  | NotFound
  | TransientIO
  | Errorf string

type_synonym entries = "string \<rightharpoonup> chartVersion list"

text \<open>
  Modelled from the spec: \<^verbatim>\<open>repo.Index\<close> (package \<^verbatim>\<open>pkg/repo\<close> is not in the
  sources). The source builds one with the fields \<^verbatim>\<open>IndexFile\<close>, \<^verbatim>\<open>Raw\<close>
  and \<^verbatim>\<open>ChartURL\<close> and reads \<^verbatim>\<open>server.RepositoryIndex.Entries[name]\<close>: the
  entries are a Go map reached through the field \<^verbatim>\<open>IndexFile\<close>. A Go map is a
  reference, so the field is an address into a heap of entries maps, and copying the field
  copies the address.
\<close>

type_synonym addr = nat

record index =
  IndexFile :: addr
  Raw :: bytes
  ChartURL :: string

text \<open>
  Modelled from the spec: the storage backend (\<^verbatim>\<open>storage.Backend\<close>, package
  \<^verbatim>\<open>pkg/storage\<close> is not in the sources). It holds the stored objects in listing order
  and a clock for the last-modified meta. An operation fails with \<open>TransientIO\<close> where
  its fault predicate says so, and with \<open>NotFound\<close> where the path is absent.
\<close>

record backend =
  Objects :: "object list"
  Clock :: nat
  ListFault :: bool
  GetFault :: "string \<Rightarrow> bool"
  PutFault :: "string \<Rightarrow> bool"
  DeleteFault :: "string \<Rightarrow> bool"

text \<open>The \<^verbatim>\<open>Server\<close> struct, with the heap its index points into and the lines
  written by \<^verbatim>\<open>Logger.Warnw\<close> (action and package path).\<close>

record server =
  RepositoryIndex :: index
  StorageBackend :: backend
  StorageCache :: "object list"
  AllowOverwrite :: bool
  ChartPostFormFieldName :: string
  ProvPostFormFieldName :: string
  CacheRefreshPeriod :: int
  Heap :: "addr \<Rightarrow> entries"
  Warnings :: "(string \<times> string) list"

text \<open>
  What the handlers use of packages \<^verbatim>\<open>pkg/repo\<close> and \<^verbatim>\<open>pkg/storage\<close>, which are
  not in the sources: the two file extensions, the artifact decoder, the filename
  functions, \<^verbatim>\<open>Object.HasExtension\<close>, the index serializer used by
  \<^verbatim>\<open>Regenerate\<close> and the order that keeps a chart's versions sorted. They are
  parameters of every function below.
\<close>

record repo =
  ChartPackageFileExtension :: string
  ProvenanceFileExtension :: string
  ChartVersionFromStorageObject :: "object \<Rightarrow> error + chartVersion"
  ChartPackageFilenameFromContent :: "bytes \<Rightarrow> error + string"
  ProvenanceFilenameFromContent :: "bytes \<Rightarrow> error + string"
  ChartPackageFilenameFromNameVersion :: "string \<Rightarrow> string \<Rightarrow> string"
  ProvenanceFilenameFromNameVersion :: "string \<Rightarrow> string \<Rightarrow> string"
  HasExtension :: "object \<Rightarrow> string \<Rightarrow> bool"
  Serialize :: "entries \<Rightarrow> error + bytes"
  Newer :: "chartVersion \<Rightarrow> chartVersion \<Rightarrow> bool"

text \<open>HTTP responses: \<^verbatim>\<open>c.JSON(status, body)\<close> and
  \<^verbatim>\<open>c.Data(status, contentType, bytes)\<close>. The JSON bodies are the five
  fixed responses, \<^verbatim>\<open>errorResponse(err)\<close>, and what the read handlers send:
  all entries, the versions of a chart, one version.\<close>

datatype body =
    objectSavedResponse
  | objectDeletedResponse
  | notFoundErrorResponse
  | badExtensionErrorResponse
  | alreadyExistsErrorResponse
  | errorResponse error
  | entriesResponse entries
  | chartResponse "chartVersion list"
  | chartVersionResponse chartVersion

datatype contentType =
    IndexFileContentType
  | ProvenanceFileContentType
  | ChartPackageContentType

datatype response =
    JSON nat body
  | Data nat contentType bytes

text \<open>A file of a multipart form, as \<^verbatim>\<open>req.FormFile\<close> and \<^verbatim>\<open>io.Copy\<close>
  give it: absent, unreadable, or its bytes.\<close>

datatype formFile =
    NoFile
  | Unreadable error
  | FileContent bytes

type_synonym request = "string \<Rightarrow> formFile"

record packageOrProvenanceFile =
  ppf_filename :: string
  ppf_content :: bytes
  ppf_field :: string

subsection \<open>Strings\<close>

text \<open>\<^verbatim>\<open>strings.HasSuffix(s, suffix)\<close>.\<close>

definition HasSuffix :: "string \<Rightarrow> string \<Rightarrow> bool" where
  "HasSuffix str suf =
     (length suf \<le> length str \<and> drop (length str - length suf) str = suf)"

subsection \<open>Storage backend\<close>

definition ListObjects :: "backend \<Rightarrow> error + object list" where
  "ListObjects b = (if ListFault b then Inl TransientIO else Inr (Objects b))"

definition GetObject :: "backend \<Rightarrow> string \<Rightarrow> error + object" where
  "GetObject b p =
     (if GetFault b p then Inl TransientIO
      else case find (\<lambda>ob. Path ob = p) (Objects b) of
             None \<Rightarrow> Inl NotFound
           | Some ob \<Rightarrow> Inr ob)"

definition PutObject :: "backend \<Rightarrow> string \<Rightarrow> bytes \<Rightarrow> error + backend" where
  "PutObject b p c =
     (if PutFault b p then Inl TransientIO
      else Inr (b\<lparr>Objects := filter (\<lambda>ob. Path ob \<noteq> p) (Objects b)
                                @ [\<lparr>Path = p, Content = c, Meta = Clock b\<rparr>],
                   Clock := Suc (Clock b)\<rparr>))"

definition DeleteObject :: "backend \<Rightarrow> string \<Rightarrow> error + backend" where
  "DeleteObject b p =
     (if DeleteFault b p then Inl TransientIO
      else case find (\<lambda>ob. Path ob = p) (Objects b) of
             None \<Rightarrow> Inl NotFound
           | Some ob \<Rightarrow> Inr (b\<lparr>Objects := filter (\<lambda>ob. Path ob \<noteq> p) (Objects b)\<rparr>))"

subsection \<open>Object diff\<close>

text \<open>
  Modelled from the spec: \<^verbatim>\<open>storage.GetObjectSliceDiff\<close> (not in the sources).
  Added are the objects of the new listing whose path the old one lacks, removed the
  objects of the old listing whose path the new one lacks, updated the new objects whose
  path the old listing has with a different meta.
\<close>

record objectSliceDiff =
  Change :: bool
  Removed :: "object list"
  Added :: "object list"
  Updated :: "object list"

definition GetObjectSliceDiff :: "object list \<Rightarrow> object list \<Rightarrow> objectSliceDiff" where
  "GetObjectSliceDiff os1 os2 =
     (let added = filter (\<lambda>o2. find (\<lambda>o1. Path o1 = Path o2) os1 = None) os2;
          removed = filter (\<lambda>o1. find (\<lambda>o2. Path o2 = Path o1) os2 = None) os1;
          updated = filter (\<lambda>o2. case find (\<lambda>o1. Path o1 = Path o2) os1 of
                                     None \<Rightarrow> False
                                   | Some o1 \<Rightarrow> Meta o1 \<noteq> Meta o2) os2
      in \<lparr>Change = (length added + length removed + length updated > 0),
          Removed = removed, Added = added, Updated = updated\<rparr>)"

subsection \<open>Index\<close>

text \<open>
  Modelled from the spec: the methods of \<^verbatim>\<open>repo.Index\<close> (not in the sources).
  \<open>AddEntry\<close> inserts or replaces the entry at (name, version), keeps the versions
  sorted and clears \<open>Raw\<close>; \<open>RemoveEntry\<close> removes the entry, drops a name left
  without versions and clears \<open>Raw\<close>; \<open>UpdateEntry\<close> is \<open>AddEntry\<close>;
  \<open>Regenerate\<close> rebuilds \<open>Raw\<close> from the entries. The methods have a pointer
  receiver and no result: they write the entries map in place, that is the heap cell at
  \<open>IndexFile\<close>, and the field \<open>Raw\<close> of the index they are called on.
\<close>

fun insertVersion :: "(chartVersion \<Rightarrow> chartVersion \<Rightarrow> bool) \<Rightarrow> chartVersion
    \<Rightarrow> chartVersion list \<Rightarrow> chartVersion list" where
  "insertVersion newer cv [] = [cv]"
| "insertVersion newer cv (x # xs) =
     (if newer cv x then cv # x # xs else x # insertVersion newer cv xs)"

definition addToEntries :: "repo \<Rightarrow> chartVersion \<Rightarrow> entries \<Rightarrow> entries" where
  "addToEntries R cv es =
     es(Name cv \<mapsto>
          insertVersion (Newer R) cv
            (filter (\<lambda>x. Version x \<noteq> Version cv)
               (case es (Name cv) of None \<Rightarrow> [] | Some vs \<Rightarrow> vs)))"

definition removeFromEntries :: "chartVersion \<Rightarrow> entries \<Rightarrow> entries" where
  "removeFromEntries cv es =
     (case es (Name cv) of
        None \<Rightarrow> es
      | Some vs \<Rightarrow>
          (let vs' = filter (\<lambda>x. Version x \<noteq> Version cv) vs
           in if vs' = [] then es(Name cv := None) else es(Name cv \<mapsto> vs')))"

definition AddEntry :: "repo \<Rightarrow> chartVersion \<Rightarrow> index \<Rightarrow> server \<Rightarrow> index \<times> server" where
  "AddEntry R cv ix s =
     (ix\<lparr>Raw := []\<rparr>,
      s\<lparr>Heap := (Heap s)(IndexFile ix := addToEntries R cv (Heap s (IndexFile ix)))\<rparr>)"

definition RemoveEntry :: "chartVersion \<Rightarrow> index \<Rightarrow> server \<Rightarrow> index \<times> server" where
  "RemoveEntry cv ix s =
     (ix\<lparr>Raw := []\<rparr>,
      s\<lparr>Heap := (Heap s)(IndexFile ix := removeFromEntries cv (Heap s (IndexFile ix)))\<rparr>)"

definition UpdateEntry :: "repo \<Rightarrow> chartVersion \<Rightarrow> index \<Rightarrow> server \<Rightarrow> index \<times> server" where
  "UpdateEntry R cv ix s = AddEntry R cv ix s"

definition Regenerate :: "repo \<Rightarrow> index \<Rightarrow> server \<Rightarrow> error + index" where
  "Regenerate R ix s =
     (case Serialize R (Heap s (IndexFile ix)) of
        Inl err \<Rightarrow> Inl err
      | Inr raw \<Rightarrow> Inr (ix\<lparr>Raw := raw\<rparr>))"

text \<open>
  Modelled from the spec: \<^verbatim>\<open>Index.Get(name, version)\<close> (not in the sources). An
  empty version selects the first entry of the name, any other version the entry with
  exactly that version; a miss is an error.
\<close>

definition IndexGet :: "entries \<Rightarrow> string \<Rightarrow> string \<Rightarrow> error + chartVersion" where
  "IndexGet es name version =
     (case es name of
        None \<Rightarrow> Inl NotFound
      | Some vs \<Rightarrow>
          if version = [] then
            (case vs of [] \<Rightarrow> Inl NotFound | cv # rest \<Rightarrow> Inr cv)
          else
            (case find (\<lambda>cv. Version cv = version) vs of
               None \<Rightarrow> Inl NotFound
             | Some cv \<Rightarrow> Inr cv))"

text \<open>The entries a reader of the published index sees.\<close>

definition liveEntries :: "server \<Rightarrow> entries" where
  "liveEntries s = Heap s (IndexFile (RepositoryIndex s))"

text \<open>Invariant I1: \<open>Raw\<close> is empty or is the serialization of the current entries.\<close>

definition I1 :: "repo \<Rightarrow> server \<Rightarrow> bool" where
  "I1 R s =
     (Raw (RepositoryIndex s) = []
      \<or> Serialize R (liveEntries s) = Inr (Raw (RepositoryIndex s)))"

subsection \<open>Decoding a storage object\<close>

definition getObjectChartVersion :: "repo \<Rightarrow> server \<Rightarrow> object \<Rightarrow> bool \<Rightarrow> error + chartVersion" where
  "getObjectChartVersion R s obj load =
     (if load then
        (case GetObject (StorageBackend s) (Path obj) of
           Inl err \<Rightarrow> Inl err
         | Inr fetched \<Rightarrow>
             if length (Content fetched) = 0 then Inl ErrorInvalidChartPackage
             else ChartVersionFromStorageObject R fetched)
      else ChartVersionFromStorageObject R obj)"

definition checkInvalidChartPackageError :: "server \<Rightarrow> object \<Rightarrow> error \<Rightarrow> string
    \<Rightarrow> error option \<times> server" where
  "checkInvalidChartPackageError s obj err action =
     (if err = ErrorInvalidChartPackage
      then (None, s\<lparr>Warnings := Warnings s @ [(action, Path obj)]\<rparr>)
      else (Some err, s))"

subsection \<open>Index updates of the reconciler\<close>

text \<open>The functions that take \<^verbatim>\<open>index *repo.Index\<close> return the index they wrote
  beside the state.\<close>

definition removeIndexObject :: "repo \<Rightarrow> index \<Rightarrow> object \<Rightarrow> server
    \<Rightarrow> error option \<times> index \<times> server" where
  "removeIndexObject R ix obj s =
     (case getObjectChartVersion R s obj False of
        Inl err \<Rightarrow>
          (case checkInvalidChartPackageError s obj err ''removed'' of
             (e, s1) \<Rightarrow> (e, ix, s1))
      | Inr cv \<Rightarrow>
          (case RemoveEntry cv ix s of (ix1, s1) \<Rightarrow> (None, ix1, s1)))"

definition updateIndexObject :: "repo \<Rightarrow> index \<Rightarrow> object \<Rightarrow> server
    \<Rightarrow> error option \<times> index \<times> server" where
  "updateIndexObject R ix obj s =
     (case getObjectChartVersion R s obj True of
        Inl err \<Rightarrow>
          (case checkInvalidChartPackageError s obj err ''updated'' of
             (e, s1) \<Rightarrow> (e, ix, s1))
      | Inr cv \<Rightarrow>
          (case UpdateEntry R cv ix s of (ix1, s1) \<Rightarrow> (None, ix1, s1)))"

text \<open>
  \<^verbatim>\<open>addIndexObjectsAsync\<close>. Each goroutine reads the function's variable
  \<^verbatim>\<open>err\<close> in \<^verbatim>\<open>if err == nil\<close>; inside that block
  \<^verbatim>\<open>chartVersion, err := server.getObjectChartVersion(o, true)\<close> declares a new
  \<^verbatim>\<open>err\<close>, and the result of \<^verbatim>\<open>checkInvalidChartPackageError\<close> is assigned
  to that inner variable, which ends with the block. \<open>loadObject\<close> is the body of one
  goroutine: it gets the outer \<^verbatim>\<open>err\<close> and returns the slot \<^verbatim>\<open>loaded[i]\<close>.
  The goroutines only read the backend and each writes its own slot, so running them one
  after the other gives the slice that any interleaving gives.
\<close>

definition loadObject :: "repo \<Rightarrow> error option \<Rightarrow> object \<Rightarrow> server
    \<Rightarrow> chartVersion option \<times> server" where
  "loadObject R err obj s =
     (if err = None then
        (case getObjectChartVersion R s obj True of
           Inl err' \<Rightarrow>
             (case checkInvalidChartPackageError s obj err' ''added'' of
                (err'', s1) \<Rightarrow> (None, s1))
         | Inr cv \<Rightarrow> (Some cv, s))
      else (None, s))"

fun loadObjects :: "repo \<Rightarrow> error option \<Rightarrow> object list \<Rightarrow> server
    \<Rightarrow> chartVersion option list \<times> server" where
  "loadObjects R err [] s = ([], s)"
| "loadObjects R err (obj # objs) s =
     (case loadObject R err obj s of
        (slot, s1) \<Rightarrow>
          (case loadObjects R err objs s1 of
             (slots, s2) \<Rightarrow> (slot # slots, s2)))"

fun addLoaded :: "repo \<Rightarrow> chartVersion option list \<Rightarrow> index \<Rightarrow> server \<Rightarrow> index \<times> server" where
  "addLoaded R [] ix s = (ix, s)"
| "addLoaded R (None # slots) ix s = addLoaded R slots ix s"
| "addLoaded R (Some cv # slots) ix s =
     (case AddEntry R cv ix s of (ix1, s1) \<Rightarrow> addLoaded R slots ix1 s1)"

definition addIndexObjectsAsync :: "repo \<Rightarrow> index \<Rightarrow> object list \<Rightarrow> server
    \<Rightarrow> error option \<times> index \<times> server" where
  "addIndexObjectsAsync R ix objs s =
     (if length objs = 0 then (None, ix, s)
      else
        (let err = None
         in case loadObjects R err objs s of
              (loaded, s1) \<Rightarrow>
                if err \<noteq> None then (err, ix, s1)
                else (case addLoaded R loaded ix s1 of
                        (ix1, s2) \<Rightarrow> (None, ix1, s2))))"

subsection \<open>Reconcile\<close>

definition listObjectsGetDiff :: "repo \<Rightarrow> server \<Rightarrow> error + (object list \<times> objectSliceDiff)" where
  "listObjectsGetDiff R s =
     (case ListObjects (StorageBackend s) of
        Inl err \<Rightarrow> Inl err
      | Inr allObjects \<Rightarrow>
          (let filteredObjects =
                 filter (\<lambda>ob. HasExtension R ob (ChartPackageFileExtension R)) allObjects;
               diff = GetObjectSliceDiff (StorageCache s) filteredObjects
           in Inr (filteredObjects, diff)))"

fun removeIndexObjects :: "repo \<Rightarrow> index \<Rightarrow> object list \<Rightarrow> server
    \<Rightarrow> error option \<times> index \<times> server" where
  "removeIndexObjects R ix [] s = (None, ix, s)"
| "removeIndexObjects R ix (obj # objs) s =
     (case removeIndexObject R ix obj s of
        (Some err, ix1, s1) \<Rightarrow> (Some err, ix1, s1)
      | (None, ix1, s1) \<Rightarrow> removeIndexObjects R ix1 objs s1)"

fun updateIndexObjects :: "repo \<Rightarrow> index \<Rightarrow> object list \<Rightarrow> server
    \<Rightarrow> error option \<times> index \<times> server" where
  "updateIndexObjects R ix [] s = (None, ix, s)"
| "updateIndexObjects R ix (obj # objs) s =
     (case updateIndexObject R ix obj s of
        (Some err, ix1, s1) \<Rightarrow> (Some err, ix1, s1)
      | (None, ix1, s1) \<Rightarrow> updateIndexObjects R ix1 objs s1)"

definition regenerateRepositoryIndex :: "repo \<Rightarrow> server \<Rightarrow> error option \<times> server" where
  "regenerateRepositoryIndex R s =
     (case listObjectsGetDiff R s of
        Inl err \<Rightarrow> (Some err, s)
      | Inr (objs, diff) \<Rightarrow>
          (let ix = \<lparr>IndexFile = IndexFile (RepositoryIndex s),
                     Raw = Raw (RepositoryIndex s),
                     ChartURL = ChartURL (RepositoryIndex s)\<rparr>
           in case removeIndexObjects R ix (Removed diff) s of
                (Some err, ix1, s1) \<Rightarrow> (Some err, s1)
              | (None, ix1, s1) \<Rightarrow>
                  (case updateIndexObjects R ix1 (Updated diff) s1 of
                     (Some err, ix2, s2) \<Rightarrow> (Some err, s2)
                   | (None, ix2, s2) \<Rightarrow>
                       (case addIndexObjectsAsync R ix2 (Added diff) s2 of
                          (Some err, ix3, s3) \<Rightarrow> (Some err, s3)
                        | (None, ix3, s3) \<Rightarrow>
                            (case Regenerate R ix3 s3 of
                               Inl err \<Rightarrow> (Some err, s3)
                             | Inr ix4 \<Rightarrow>
                                 (None, s3\<lparr>RepositoryIndex := ix4,
                                           StorageCache := objs\<rparr>))))))"

definition syncRepositoryIndex :: "repo \<Rightarrow> server \<Rightarrow> error option \<times> server" where
  "syncRepositoryIndex R s =
     (case listObjectsGetDiff R s of
        Inl err \<Rightarrow> (Some err, s)
      | Inr (objs, diff) \<Rightarrow>
          if \<not> Change diff then (None, s)
          else regenerateRepositoryIndex R s)"

subsection \<open>Incremental updates of cache and index\<close>

text \<open>The index of the first object of the cache with the given path: the loop of
  \<^verbatim>\<open>removeChartPackage\<close>, \<open>None\<close> for \<^verbatim>\<open>idx == -1\<close>.\<close>

fun findPath :: "string \<Rightarrow> object list \<Rightarrow> nat option" where
  "findPath p [] = None"
| "findPath p (ob # obs) =
     (if Path ob = p then Some 0
      else case findPath p obs of None \<Rightarrow> None | Some i \<Rightarrow> Some (Suc i))"

definition removeChartPackage :: "repo \<Rightarrow> server \<Rightarrow> string \<Rightarrow> error option \<times> server" where
  "removeChartPackage R s fname =
     (case findPath fname (StorageCache s) of
        Some idx \<Rightarrow>
          (case removeIndexObject R (RepositoryIndex s) (StorageCache s ! idx) s of
             (Some err, ix1, s1) \<Rightarrow> (Some err, s1\<lparr>RepositoryIndex := ix1\<rparr>)
           | (None, ix1, s1) \<Rightarrow>
               (None, s1\<lparr>RepositoryIndex := ix1,
                         StorageCache := take idx (StorageCache s1)
                                         @ drop (Suc idx) (StorageCache s1)\<rparr>))
      | None \<Rightarrow>
          (Some (Errorf (''chart with filename '' @ [CHR 0x27] @ fname @ [CHR 0x27]
                         @ '' not found'')), s))"

definition addChartPackage :: "repo \<Rightarrow> server \<Rightarrow> object \<Rightarrow> error option \<times> server" where
  "addChartPackage R s obj =
     (let s0 = s\<lparr>StorageCache := StorageCache s @ [obj]\<rparr>
      in case getObjectChartVersion R s0 obj False of
           Inl err \<Rightarrow> checkInvalidChartPackageError s0 obj err ''added''
         | Inr cv \<Rightarrow>
             (case AddEntry R cv (RepositoryIndex s0) s0 of
                (ix1, s1) \<Rightarrow> (None, s1\<lparr>RepositoryIndex := ix1\<rparr>)))"

subsection \<open>Read handlers\<close>

definition getIndexFileRequestHandler :: "repo \<Rightarrow> server \<Rightarrow> response \<times> server" where
  "getIndexFileRequestHandler R s =
     (if CacheRefreshPeriod s = 0 then
        (case syncRepositoryIndex R s of
           (Some err, s1) \<Rightarrow> (JSON 500 (errorResponse err), s1)
         | (None, s1) \<Rightarrow> (Data 200 IndexFileContentType (Raw (RepositoryIndex s1)), s1))
      else (Data 200 IndexFileContentType (Raw (RepositoryIndex s)), s))"

definition getAllChartsRequestHandler :: "repo \<Rightarrow> server \<Rightarrow> response \<times> server" where
  "getAllChartsRequestHandler R s =
     (if CacheRefreshPeriod s = 0 then
        (case syncRepositoryIndex R s of
           (Some err, s1) \<Rightarrow> (JSON 500 (errorResponse err), s1)
         | (None, s1) \<Rightarrow> (JSON 200 (entriesResponse (liveEntries s1)), s1))
      else (JSON 200 (entriesResponse (liveEntries s)), s))"

text \<open>\<^verbatim>\<open>server.RepositoryIndex.Entries[name]\<close> is \<^verbatim>\<open>nil\<close> for a name the
  map lacks.\<close>

definition chartOf :: "server \<Rightarrow> string \<Rightarrow> response" where
  "chartOf s name =
     (case liveEntries s name of
        None \<Rightarrow> JSON 404 notFoundErrorResponse
      | Some chart \<Rightarrow> JSON 200 (chartResponse chart))"

definition getChartRequestHandler :: "repo \<Rightarrow> server \<Rightarrow> string \<Rightarrow> response \<times> server" where
  "getChartRequestHandler R s name =
     (if CacheRefreshPeriod s = 0 then
        (case syncRepositoryIndex R s of
           (Some err, s1) \<Rightarrow> (JSON 500 (errorResponse err), s1)
         | (None, s1) \<Rightarrow> (chartOf s1 name, s1))
      else (chartOf s name, s))"

definition chartVersionOf :: "server \<Rightarrow> string \<Rightarrow> string \<Rightarrow> response" where
  "chartVersionOf s name version =
     (case IndexGet (liveEntries s) name version of
        Inl err \<Rightarrow> JSON 404 notFoundErrorResponse
      | Inr chartVersion \<Rightarrow> JSON 200 (chartVersionResponse chartVersion))"

definition getChartVersionRequestHandler :: "repo \<Rightarrow> server \<Rightarrow> string \<Rightarrow> string
    \<Rightarrow> response \<times> server" where
  "getChartVersionRequestHandler R s name version0 =
     (let version = (if version0 = ''latest'' then [] else version0)
      in if CacheRefreshPeriod s = 0 then
           (case syncRepositoryIndex R s of
              (Some err, s1) \<Rightarrow> (JSON 500 (errorResponse err), s1)
            | (None, s1) \<Rightarrow> (chartVersionOf s1 name version, s1))
         else (chartVersionOf s name version, s))"

definition getStorageObjectRequestHandler :: "repo \<Rightarrow> server \<Rightarrow> string \<Rightarrow> response" where
  "getStorageObjectRequestHandler R s fname =
     (let isChartPackage = HasSuffix fname (ChartPackageFileExtension R);
          isProvenanceFile = HasSuffix fname (ProvenanceFileExtension R)
      in if \<not> isChartPackage \<and> \<not> isProvenanceFile then JSON 500 badExtensionErrorResponse
         else (case GetObject (StorageBackend s) fname of
                 Inl err \<Rightarrow> JSON 404 notFoundErrorResponse
               | Inr ob \<Rightarrow>
                   if isProvenanceFile then Data 200 ProvenanceFileContentType (Content ob)
                   else Data 200 ChartPackageContentType (Content ob)))"

subsection \<open>Delete handler\<close>

definition deleteChartVersionRequestHandler :: "repo \<Rightarrow> server \<Rightarrow> string \<Rightarrow> string
    \<Rightarrow> response \<times> server" where
  "deleteChartVersionRequestHandler R s name version =
     (let fname = ChartPackageFilenameFromNameVersion R name version
      in case DeleteObject (StorageBackend s) fname of
           Inl err \<Rightarrow> (JSON 404 notFoundErrorResponse, s)
         | Inr b1 \<Rightarrow>
             (let provFilename = ProvenanceFilenameFromNameVersion R name version;
                  b2 = (case DeleteObject b1 provFilename of Inl err \<Rightarrow> b1 | Inr b' \<Rightarrow> b');
                  s1 = s\<lparr>StorageBackend := b2\<rparr>
              in if CacheRefreshPeriod s1 > 0 then
                   (case removeChartPackage R s1 fname of
                      (Some err, s2) \<Rightarrow> (JSON 500 (errorResponse err), s2)
                    | (None, s2) \<Rightarrow> (JSON 200 objectDeletedResponse, s2))
                 else (JSON 200 objectDeletedResponse, s1)))"

subsection \<open>Upload handlers\<close>

definition extractAndValidateFormFile :: "server \<Rightarrow> request \<Rightarrow> string
    \<Rightarrow> (bytes \<Rightarrow> error + string)
    \<Rightarrow> packageOrProvenanceFile option \<times> nat \<times> error option" where
  "extractAndValidateFormFile s req field fnFromContent =
     (case req field of
        NoFile \<Rightarrow> (None, 200, None)
      | Unreadable err \<Rightarrow> (None, 500, Some err)
      | FileContent content \<Rightarrow>
          (case fnFromContent content of
             Inl err \<Rightarrow> (None, 400, Some err)
           | Inr fname \<Rightarrow>
               if \<not> AllowOverwrite s
                  \<and> (case GetObject (StorageBackend s) fname of
                        Inl err \<Rightarrow> False | Inr ob \<Rightarrow> True)
               then (None, 409, Some (Errorf (fname @ '' already exists'')))
               else (Some \<lparr>ppf_filename = fname, ppf_content = content, ppf_field = field\<rparr>,
                     200, None)))"

text \<open>The first loop of \<^verbatim>\<open>postPackageAndProvenanceRequestHandler\<close>, over the pairs
  of form field and filename function: the files found, or the status and error of the
  first field that fails.\<close>

fun extractFormFiles :: "server \<Rightarrow> request \<Rightarrow> (string \<times> (bytes \<Rightarrow> error + string)) list
    \<Rightarrow> packageOrProvenanceFile list \<Rightarrow> (nat \<times> error) + packageOrProvenanceFile list" where
  "extractFormFiles s req [] ppFiles = Inr ppFiles"
| "extractFormFiles s req (ff # ffp) ppFiles =
     (case extractAndValidateFormFile s req (fst ff) (snd ff) of
        (ppf, status, Some err) \<Rightarrow> Inl (status, err)
      | (None, status, None) \<Rightarrow> extractFormFiles s req ffp ppFiles
      | (Some f, status, None) \<Rightarrow> extractFormFiles s req ffp (ppFiles @ [f]))"

text \<open>
  One round of the second loop, up to the test \<^verbatim>\<open>if err != nil\<close>: the error of
  \<^verbatim>\<open>PutObject\<close>, the stored files and the state. In periodic mode the package is read
  back and added to cache and index; \<^verbatim>\<open>obj, err := server.StorageBackend.GetObject\<close>
  declares a new \<^verbatim>\<open>err\<close> in the inner block, so the errors of \<^verbatim>\<open>GetObject\<close>
  and \<^verbatim>\<open>addChartPackage\<close> end with that block and the test after it sees the
  error of \<^verbatim>\<open>PutObject\<close> only.
\<close>

definition storeFormFile :: "repo \<Rightarrow> packageOrProvenanceFile \<Rightarrow> packageOrProvenanceFile list
    \<Rightarrow> server \<Rightarrow> error option \<times> packageOrProvenanceFile list \<times> server" where
  "storeFormFile R ppf storedFiles s =
     (case PutObject (StorageBackend s) (ppf_filename ppf) (ppf_content ppf) of
        Inl err \<Rightarrow> (Some err, storedFiles, s)
      | Inr b \<Rightarrow>
          (let s1 = s\<lparr>StorageBackend := b\<rparr>;
               s2 = (if CacheRefreshPeriod s1 > 0 then
                       if HasSuffix (ppf_filename ppf) (ChartPackageFileExtension R) then
                         (case GetObject (StorageBackend s1) (ppf_filename ppf) of
                            Inl err' \<Rightarrow> s1
                          | Inr ob \<Rightarrow> snd (addChartPackage R s1 ob))
                       else s1
                     else s1)
           in (None, storedFiles @ [ppf], s2)))"

fun deleteStoredFiles :: "packageOrProvenanceFile list \<Rightarrow> server \<Rightarrow> server" where
  "deleteStoredFiles [] s = s"
| "deleteStoredFiles (ppf # ppfs) s =
     deleteStoredFiles ppfs
       (case DeleteObject (StorageBackend s) (ppf_filename ppf) of
          Inl err \<Rightarrow> s
        | Inr b \<Rightarrow> s\<lparr>StorageBackend := b\<rparr>)"

fun storeFormFiles :: "repo \<Rightarrow> packageOrProvenanceFile list \<Rightarrow> packageOrProvenanceFile list
    \<Rightarrow> server \<Rightarrow> response \<times> server" where
  "storeFormFiles R [] storedFiles s = (JSON 201 objectSavedResponse, s)"
| "storeFormFiles R (ppf # ppFiles) storedFiles s =
     (case storeFormFile R ppf storedFiles s of
        (Some err, storedFiles1, s1) \<Rightarrow>
          (JSON 500 (errorResponse err), deleteStoredFiles storedFiles1 s1)
      | (None, storedFiles1, s1) \<Rightarrow> storeFormFiles R ppFiles storedFiles1 s1)"

definition postPackageAndProvenanceRequestHandler :: "repo \<Rightarrow> server \<Rightarrow> request
    \<Rightarrow> response \<times> server" where
  "postPackageAndProvenanceRequestHandler R s req =
     (let ffp = [(ChartPostFormFieldName s, ChartPackageFilenameFromContent R),
                 (ProvPostFormFieldName s, ProvenanceFilenameFromContent R)]
      in case extractFormFiles s req ffp [] of
           Inl (status, err) \<Rightarrow> (JSON status (errorResponse err), s)
         | Inr ppFiles \<Rightarrow>
             if length ppFiles = 0 then
               (JSON 400 (errorResponse (Errorf
                  (''no package or provenance file found in form fields ''
                   @ ChartPostFormFieldName s @ '' and '' @ ProvPostFormFieldName s))), s)
             else storeFormFiles R ppFiles [] s)"

text \<open>\<^verbatim>\<open>postPackageRequestHandler\<close>: the body of the request is what
  \<^verbatim>\<open>c.GetRawData()\<close> returns.\<close>

definition postPackageRequestHandler :: "repo \<Rightarrow> server \<Rightarrow> error + bytes
    \<Rightarrow> response \<times> server" where
  "postPackageRequestHandler R s rawData =
     (case rawData of
        Inl err \<Rightarrow> (JSON 500 (errorResponse err), s)
      | Inr content \<Rightarrow>
          (case ChartPackageFilenameFromContent R content of
             Inl err \<Rightarrow> (JSON 500 (errorResponse err), s)
           | Inr fname \<Rightarrow>
               if \<not> AllowOverwrite s
                  \<and> (case GetObject (StorageBackend s) fname of
                        Inl err \<Rightarrow> False | Inr ob \<Rightarrow> True)
               then (JSON 500 alreadyExistsErrorResponse, s)
               else
                 (case PutObject (StorageBackend s) fname content of
                    Inl err \<Rightarrow> (JSON 500 (errorResponse err), s)
                  | Inr b \<Rightarrow>
                      (let s1 = s\<lparr>StorageBackend := b\<rparr>
                       in if CacheRefreshPeriod s1 > 0 then
                            (case GetObject (StorageBackend s1) fname of
                               Inl err \<Rightarrow> (JSON 500 (errorResponse err), s1)
                             | Inr ob \<Rightarrow>
                                 (case addChartPackage R s1 ob of
                                    (Some err, s2) \<Rightarrow> (JSON 500 (errorResponse err), s2)
                                  | (None, s2) \<Rightarrow> (JSON 201 objectSavedResponse, s2)))
                          else (JSON 201 objectSavedResponse, s1)))))"

definition postProvenanceFileRequestHandler :: "repo \<Rightarrow> server \<Rightarrow> error + bytes
    \<Rightarrow> response \<times> server" where
  "postProvenanceFileRequestHandler R s rawData =
     (case rawData of
        Inl err \<Rightarrow> (JSON 500 (errorResponse err), s)
      | Inr content \<Rightarrow>
          (case ProvenanceFilenameFromContent R content of
             Inl err \<Rightarrow> (JSON 500 (errorResponse err), s)
           | Inr fname \<Rightarrow>
               if \<not> AllowOverwrite s
                  \<and> (case GetObject (StorageBackend s) fname of
                        Inl err \<Rightarrow> False | Inr ob \<Rightarrow> True)
               then (JSON 500 alreadyExistsErrorResponse, s)
               else
                 (case PutObject (StorageBackend s) fname content of
                    Inl err \<Rightarrow> (JSON 500 (errorResponse err), s)
                  | Inr b \<Rightarrow> (JSON 201 objectSavedResponse, s\<lparr>StorageBackend := b\<rparr>))))"

text \<open>\<^verbatim>\<open>postRequestHandler\<close> chooses by the content type of the request.\<close>

datatype upload =
    Multipart request
  | RawBody "error + bytes"

definition postRequestHandler :: "repo \<Rightarrow> server \<Rightarrow> upload \<Rightarrow> response \<times> server" where
  "postRequestHandler R s u =
     (case u of
        Multipart req \<Rightarrow> postPackageAndProvenanceRequestHandler R s req
      | RawBody rawData \<Rightarrow> postPackageRequestHandler R s rawData)"

text \<open>The status code of a response.\<close>

fun statusOf :: "response \<Rightarrow> nat" where
  "statusOf (JSON st b) = st"
| "statusOf (Data st ct bs) = st"

subsection \<open>A small instance for the examples\<close>

text \<open>
  A package format small enough to evaluate: the content of a package starts with a byte
  for the chart's name and a byte for its version; a first byte 9 is an archive the decoder
  cannot read (an error that is not \<open>ErrorInvalidChartPackage\<close>); shorter content is
  not a package. The index serializes to the number of versions of each of the two names.
\<close>

definition chartName :: "nat \<Rightarrow> string" where
  "chartName n = (if n = 0 then ''alpha'' else ''beta'')"

definition chartVer :: "nat \<Rightarrow> string" where
  "chartVer v = (if v = 1 then ''1.0'' else ''2.0'')"

definition demoRepo :: repo where
  "demoRepo =
     \<lparr>ChartPackageFileExtension = ''tgz'',
      ProvenanceFileExtension = ''prov'',
      ChartVersionFromStorageObject =
        (\<lambda>ob. case Content ob of
                 n # v # rest \<Rightarrow>
                   if n = 9 then Inl (Errorf ''corrupt archive'')
                   else Inr \<lparr>Name = chartName n, Version = chartVer v, Created = Meta ob\<rparr>
               | _ \<Rightarrow> Inl ErrorInvalidChartPackage),
      ChartPackageFilenameFromContent =
        (\<lambda>c. case c of
                n # v # rest \<Rightarrow> Inr (chartName n @ ''-'' @ chartVer v @ ''.tgz'')
              | _ \<Rightarrow> Inl ErrorInvalidChartPackage),
      ProvenanceFilenameFromContent =
        (\<lambda>c. case c of
                n # v # rest \<Rightarrow> Inr (chartName n @ ''-'' @ chartVer v @ ''.tgz.prov'')
              | _ \<Rightarrow> Inl ErrorInvalidChartPackage),
      ChartPackageFilenameFromNameVersion = (\<lambda>n v. n @ ''-'' @ v @ ''.tgz''),
      ProvenanceFilenameFromNameVersion = (\<lambda>n v. n @ ''-'' @ v @ ''.tgz.prov''),
      HasExtension = (\<lambda>ob ext. HasSuffix (Path ob) (''.'' @ ext)),
      Serialize =
        (\<lambda>es. Inr [Suc (length (case es ''alpha'' of None \<Rightarrow> [] | Some vs \<Rightarrow> vs)),
                    length (case es ''beta'' of None \<Rightarrow> [] | Some vs \<Rightarrow> vs)]),
      Newer = (\<lambda>a b. Created b \<le> Created a)\<rparr>"

definition alpha10 :: object where
  "alpha10 = \<lparr>Path = ''alpha-1.0.tgz'', Content = [0, 1], Meta = 1\<rparr>"

definition alpha20 :: object where
  "alpha20 = \<lparr>Path = ''alpha-2.0.tgz'', Content = [0, 2], Meta = 2\<rparr>"

definition cvAlpha10 :: chartVersion where
  "cvAlpha10 = \<lparr>Name = ''alpha'', Version = ''1.0'', Created = 1\<rparr>"

definition cvAlpha20 :: chartVersion where
  "cvAlpha20 = \<lparr>Name = ''alpha'', Version = ''2.0'', Created = 2\<rparr>"

definition demoBackend :: "object list \<Rightarrow> backend" where
  "demoBackend obs =
     \<lparr>Objects = obs, Clock = 10, ListFault = False, GetFault = (\<lambda>p. False),
      PutFault = (\<lambda>p. False), DeleteFault = (\<lambda>p. False)\<rparr>"

text \<open>A server with the given backend, cache, entries (at address 0), raw index and
  refresh period; overwriting is not allowed.\<close>

definition demoServer :: "backend \<Rightarrow> object list \<Rightarrow> entries \<Rightarrow> bytes \<Rightarrow> int \<Rightarrow> server" where
  "demoServer b cache es raw period =
     \<lparr>RepositoryIndex = \<lparr>IndexFile = 0, Raw = raw, ChartURL = ''http://charts''\<rparr>,
      StorageBackend = b,
      StorageCache = cache,
      AllowOverwrite = False,
      ChartPostFormFieldName = ''chart'',
      ProvPostFormFieldName = ''prov'',
      CacheRefreshPeriod = period,
      Heap = (\<lambda>a. if a = 0 then es else Map.empty),
      Warnings = []\<rparr>"

text \<open>Since the last reconcile, which indexed \<^verbatim>\<open>alpha-1.0.tgz\<close>, that file was
  written again with content of length zero, and a new file of length zero was put
  beside it.\<close>

definition emptyPkg :: object where
  "emptyPkg = \<lparr>Path = ''beta-1.0.tgz'', Content = [], Meta = 3\<rparr>"

definition emptyAlpha10 :: object where
  "emptyAlpha10 = \<lparr>Path = ''alpha-1.0.tgz'', Content = [], Meta = 5\<rparr>"

definition sRewritten :: server where
  "sRewritten =
     demoServer (demoBackend [emptyAlpha10, emptyPkg]) [alpha10]
       [''alpha'' \<mapsto> [cvAlpha10]] [2, 0] 0"

text \<open>A cold start on a listing of two packages.\<close>

definition sColdStart :: server where
  "sColdStart = demoServer (demoBackend [alpha10, alpha20]) [] Map.empty [1, 0] 0"

text \<open>The backend cannot fetch the only package of its listing.\<close>

definition sLoadFault :: server where
  "sLoadFault =
     demoServer ((demoBackend [alpha10])\<lparr>GetFault := (\<lambda>p. p = ''alpha-1.0.tgz'')\<rparr>)
       [] Map.empty [1, 0] 0"

text \<open>Since the last reconcile, \<^verbatim>\<open>alpha-1.0.tgz\<close> was deleted from the backend and
  \<^verbatim>\<open>alpha-2.0.tgz\<close> was written again; the backend cannot fetch the second.\<close>

definition sUpdateFault :: server where
  "sUpdateFault =
     demoServer
       ((demoBackend [alpha20\<lparr>Meta := 5\<rparr>])\<lparr>GetFault := (\<lambda>p. p = ''alpha-2.0.tgz'')\<rparr>)
       [alpha10, alpha20] [''alpha'' \<mapsto> [cvAlpha20, cvAlpha10]] [3, 0] 0"

text \<open>A package whose name is readable and whose archive is not.\<close>

definition corruptPkg :: object where
  "corruptPkg = \<lparr>Path = ''beta-1.0.tgz'', Content = [9, 1], Meta = 10\<rparr>"

text \<open>An empty repository in periodic-refresh mode; the same with a backend that
  rejects the provenance file; a form with a package and its provenance file.\<close>

definition sPeriodic :: server where
  "sPeriodic = demoServer (demoBackend []) [] Map.empty [1, 0] 60"

definition sProvFault :: server where
  "sProvFault =
     demoServer ((demoBackend [])\<lparr>PutFault := (\<lambda>p. p = ''alpha-1.0.tgz.prov'')\<rparr>)
       [] Map.empty [1, 0] 60"

definition formBoth :: request where
  "formBoth = (\<lambda>f. if f = ''chart'' then FileContent [0, 1]
                    else if f = ''prov'' then FileContent [0, 1] else NoFile)"

text \<open>The backend fails every delete of \<^verbatim>\<open>alpha-1.0.tgz\<close>; the listing fails;
  every put fails.\<close>

definition sDeleteFault :: server where
  "sDeleteFault =
     demoServer ((demoBackend [alpha10])\<lparr>DeleteFault := (\<lambda>p. p = ''alpha-1.0.tgz'')\<rparr>)
       [alpha10] [''alpha'' \<mapsto> [cvAlpha10]] [2, 0] 60"

definition sListFault :: server where
  "sListFault = demoServer ((demoBackend [alpha10])\<lparr>ListFault := True\<rparr>) [] Map.empty [1, 0] 0"

definition sPutFault :: server where
  "sPutFault = demoServer ((demoBackend [])\<lparr>PutFault := (\<lambda>p. True)\<rparr>) [] Map.empty [1, 0] 0"

text \<open>The backend fails every fetch, in periodic-refresh mode with empty storage and in
  refresh-on-read mode with \<^verbatim>\<open>alpha-1.0.tgz\<close> stored; the backend fails the delete of
  the provenance file.\<close>

definition sRefetchFault :: server where
  "sRefetchFault =
     demoServer ((demoBackend [])\<lparr>GetFault := (\<lambda>p. True)\<rparr>) [] Map.empty [1, 0] 60"

definition sCheckFault :: server where
  "sCheckFault =
     demoServer ((demoBackend [alpha10])\<lparr>GetFault := (\<lambda>p. True)\<rparr>)
       [alpha10] [''alpha'' \<mapsto> [cvAlpha10]] [2, 0] 0"

definition sProvDeleteFault :: server where
  "sProvDeleteFault =
     demoServer ((demoBackend [alpha10])\<lparr>DeleteFault := (\<lambda>p. p = ''alpha-1.0.tgz.prov'')\<rparr>)
       [alpha10] [''alpha'' \<mapsto> [cvAlpha10]] [2, 0] 0"

text \<open>Periodic-refresh mode with a package that was put into the backend after the last
  reconcile; periodic-refresh mode with two versions in backend, cache and index; the
  same in refresh-on-read mode.\<close>

definition sOutOfBand :: server where
  "sOutOfBand = demoServer (demoBackend [alpha10]) [] Map.empty [1, 0] 60"

definition sTwoVersions :: server where
  "sTwoVersions =
     demoServer (demoBackend [alpha10, alpha20]) [alpha10, alpha20]
       [''alpha'' \<mapsto> [cvAlpha20, cvAlpha10]] [3, 0] 60"

definition sTwoVersionsOnRead :: server where
  "sTwoVersionsOnRead =
     demoServer (demoBackend [alpha10, alpha20]) [alpha10, alpha20]
       [''alpha'' \<mapsto> [cvAlpha20, cvAlpha10]] [3, 0] 0"

text \<open>Refresh-on-read mode with \<^verbatim>\<open>alpha-1.0.tgz\<close> stored; a form with a package
  only.\<close>

definition sExists :: server where
  "sExists = demoServer (demoBackend [alpha10]) [alpha10] [''alpha'' \<mapsto> [cvAlpha10]] [2, 0] 0"

definition formChart :: request where
  "formChart = (\<lambda>f. if f = ''chart'' then FileContent [0, 1] else NoFile)"

subsection \<open>Vocabulary of the properties\<close>

text \<open>The second state differs from the first in the heap of entries and the log only.\<close>

definition onlyHeapLog :: "server \<Rightarrow> server \<Rightarrow> bool" where
  "onlyHeapLog s s' = (s' = s\<lparr>Heap := Heap s', Warnings := Warnings s'\<rparr>)"

text \<open>The listing of the backend, filtered to chart packages by \<open>listObjectsGetDiff\<close>.\<close>

definition filteredListing :: "repo \<Rightarrow> server \<Rightarrow> object list" where
  "filteredListing R s =
     filter (\<lambda>ob. HasExtension R ob (ChartPackageFileExtension R)) (Objects (StorageBackend s))"

text \<open>The versions the published index lists for a name.\<close>

definition entryVersions :: "server \<Rightarrow> string \<Rightarrow> string list" where
  "entryVersions s name =
     map Version (case liveEntries s name of None \<Rightarrow> [] | Some vs \<Rightarrow> vs)"

text \<open>The error of \<open>removeChartPackage\<close> for a filename the cache lacks.\<close>

definition notInCacheError :: "string \<Rightarrow> error" where
  "notInCacheError fname =
     Errorf (''chart with filename '' @ [CHR 0x27] @ fname @ [CHR 0x27] @ '' not found'')"

text \<open>The filename exists in storage: \<open>GetObject\<close> succeeds.\<close>

definition objectExists :: "server \<Rightarrow> string \<Rightarrow> bool" where
  "objectExists s fname =
     (case GetObject (StorageBackend s) fname of Inl err \<Rightarrow> False | Inr ob \<Rightarrow> True)"

text \<open>The form field carries a readable file whose derived filename exists in storage;
  the form field carries a file that is unreadable or has no derivable filename; the body
  of a raw upload is a package whose derived filename exists in storage.\<close>

definition fieldConflict :: "server \<Rightarrow> request \<Rightarrow> string \<Rightarrow> (bytes \<Rightarrow> error + string) \<Rightarrow> bool" where
  "fieldConflict s req field fnFromContent =
     (case req field of
        FileContent content \<Rightarrow>
          (case fnFromContent content of
             Inl err \<Rightarrow> False
           | Inr fname \<Rightarrow> objectExists s fname)
      | _ \<Rightarrow> False)"

definition fieldInvalid :: "request \<Rightarrow> string \<Rightarrow> (bytes \<Rightarrow> error + string) \<Rightarrow> bool" where
  "fieldInvalid req field fnFromContent =
     (case req field of
        NoFile \<Rightarrow> False
      | Unreadable err \<Rightarrow> True
      | FileContent content \<Rightarrow>
          (case fnFromContent content of Inl err \<Rightarrow> True | Inr fname \<Rightarrow> False))"

definition rawConflict :: "repo \<Rightarrow> server \<Rightarrow> error + bytes \<Rightarrow> bool" where
  "rawConflict R s rawData =
     (case rawData of
        Inl err \<Rightarrow> False
      | Inr content \<Rightarrow>
          (case ChartPackageFilenameFromContent R content of
             Inl err \<Rightarrow> False
           | Inr fname \<Rightarrow> objectExists s fname))"

text \<open>The state after \<^verbatim>\<open>Logger.Warnw\<close> for an invalid package.\<close>

definition warn :: "string \<Rightarrow> object \<Rightarrow> server \<Rightarrow> server" where
  "warn action obj s = s\<lparr>Warnings := Warnings s @ [(action, Path obj)]\<rparr>"

text \<open>The working index that \<open>regenerateRepositoryIndex\<close> starts from.\<close>

definition workingIndex :: "server \<Rightarrow> index" where
  "workingIndex s =
     \<lparr>IndexFile = IndexFile (RepositoryIndex s), Raw = Raw (RepositoryIndex s),
      ChartURL = ChartURL (RepositoryIndex s)\<rparr>"

section \<open>Properties\<close>

lemmas demo_defs = demoServer_def demoBackend_def demoRepo_def alpha10_def alpha20_def
  cvAlpha10_def cvAlpha20_def chartName_def chartVer_def

lemmas reconcile_defs = regenerateRepositoryIndex_def syncRepositoryIndex_def
  listObjectsGetDiff_def ListObjects_def GetObject_def GetObjectSliceDiff_def HasSuffix_def
  addIndexObjectsAsync_def loadObject_def getObjectChartVersion_def
  checkInvalidChartPackageError_def Regenerate_def liveEntries_def removeIndexObject_def
  updateIndexObject_def AddEntry_def RemoveEntry_def UpdateEntry_def addToEntries_def
  removeFromEntries_def

subsection \<open>The async loader never reports an error\<close>

text \<open>The variable \<^verbatim>\<open>err\<close> that \<^verbatim>\<open>addIndexObjectsAsync\<close> tests after
  \<^verbatim>\<open>wg.Wait()\<close> is never assigned, so the function returns \<^verbatim>\<open>nil\<close> on
  every input.\<close>

lemma addIndexObjectsAsync_no_error: "fst (addIndexObjectsAsync R ix objs s) = None"
  by (simp add: addIndexObjectsAsync_def split: prod.splits)

subsection \<open>Zero-length content\<close>

text \<open>
  Claim C10 (amended). When a reconcile fetches an object again (\<open>load = True\<close>) and
  \<open>GetObject\<close> succeeds with content of length zero, the object is classified as an
  invalid chart package and logged, and the reconcile does not abort. In the update step
  the object is skipped: the step returns no error, the index and its entries are as
  they were, so an entry the index already lists for the object stays, and the loop goes
  on with the remaining objects. In the add step the object is omitted: its slot stays
  empty and the batch is processed as the batch without it.
\<close>

theorem empty_content_is_skipped:
  assumes "GetObject (StorageBackend s) (Path obj) = Inr fetched"
      and "length (Content fetched) = 0"
  shows "getObjectChartVersion R s obj True = Inl ErrorInvalidChartPackage
       \<and> updateIndexObject R ix obj s = (None, ix, warn ''updated'' obj s)
       \<and> liveEntries (warn ''updated'' obj s) = liveEntries s
       \<and> updateIndexObjects R ix (obj # objs) s
           = updateIndexObjects R ix objs (warn ''updated'' obj s)
       \<and> loadObject R None obj s = (None, warn ''added'' obj s)
       \<and> addIndexObjectsAsync R ix (obj # objs) s
           = addIndexObjectsAsync R ix objs (warn ''added'' obj s)"
proof -
  have dec: "getObjectChartVersion R s obj True = Inl ErrorInvalidChartPackage"
    using assms by (simp add: getObjectChartVersion_def)
  have upd: "updateIndexObject R ix obj s = (None, ix, warn ''updated'' obj s)"
    by (simp add: updateIndexObject_def dec checkInvalidChartPackageError_def warn_def)
  have lod: "loadObject R None obj s = (None, warn ''added'' obj s)"
    by (simp add: loadObject_def dec checkInvalidChartPackageError_def warn_def)
  have add: "addIndexObjectsAsync R ix (obj # objs) s
           = addIndexObjectsAsync R ix objs (warn ''added'' obj s)"
    by (cases objs) (simp_all add: addIndexObjectsAsync_def lod split: prod.splits)
  have ent: "liveEntries (warn ''updated'' obj s) = liveEntries s"
    by (simp add: liveEntries_def warn_def)
  show ?thesis
    using dec upd lod add ent by simp
qed

text \<open>The update step on an index that lists \<^verbatim>\<open>alpha\<close> 1.0, and the add step on a
  batch of one zero-length package.\<close>

theorem empty_content_is_skipped_witness:
  "GetObject (StorageBackend sRewritten) (Path emptyAlpha10) = Inr emptyAlpha10
   \<and> length (Content emptyAlpha10) = 0
   \<and> updateIndexObject demoRepo (workingIndex sRewritten) emptyAlpha10 sRewritten
       = (None, workingIndex sRewritten, warn ''updated'' emptyAlpha10 sRewritten)
   \<and> liveEntries (warn ''updated'' emptyAlpha10 sRewritten) ''alpha'' = Some [cvAlpha10]
   \<and> GetObject (StorageBackend sRewritten) (Path emptyPkg) = Inr emptyPkg
   \<and> length (Content emptyPkg) = 0
   \<and> addIndexObjectsAsync demoRepo (workingIndex sRewritten) [emptyPkg] sRewritten
       = (None, workingIndex sRewritten, warn ''added'' emptyPkg sRewritten)"
proof -
  have h1: "GetObject (StorageBackend sRewritten) (Path emptyAlpha10) = Inr emptyAlpha10"
    by (simp add: sRewritten_def emptyAlpha10_def emptyPkg_def demo_defs GetObject_def)
  have h2: "length (Content emptyAlpha10) = 0"
    by (simp add: emptyAlpha10_def)
  have h3: "GetObject (StorageBackend sRewritten) (Path emptyPkg) = Inr emptyPkg"
    by (simp add: sRewritten_def emptyAlpha10_def emptyPkg_def demo_defs GetObject_def)
  have h4: "length (Content emptyPkg) = 0"
    by (simp add: emptyPkg_def)
  have e: "liveEntries sRewritten ''alpha'' = Some [cvAlpha10]"
    by (simp add: sRewritten_def liveEntries_def demo_defs)
  have n: "addIndexObjectsAsync demoRepo (workingIndex sRewritten) []
             (warn ''added'' emptyPkg sRewritten)
           = (None, workingIndex sRewritten, warn ''added'' emptyPkg sRewritten)"
    by (simp add: addIndexObjectsAsync_def)
  show ?thesis
    using empty_content_is_skipped
            [OF h1 h2, of demoRepo "workingIndex sRewritten" "[]"]
          empty_content_is_skipped
            [OF h3 h4, of demoRepo "workingIndex sRewritten" "[]"]
          h1 h2 h3 h4 e n
    by simp
qed

text \<open>The claim as stated fails in the update step: the reconcile of \<open>sRewritten\<close>
  fetches \<^verbatim>\<open>alpha-1.0.tgz\<close> with content of length zero, returns no error, and the
  index still lists \<^verbatim>\<open>alpha\<close> 1.0, while the zero-length \<^verbatim>\<open>beta-1.0.tgz\<close> of the
  add step has no entry.\<close>

theorem rewritten_empty_package_stays_listed:
  "GetObject (StorageBackend sRewritten) ''alpha-1.0.tgz'' = Inr emptyAlpha10
   \<and> Content emptyAlpha10 = []
   \<and> (case listObjectsGetDiff demoRepo sRewritten of
         Inl err \<Rightarrow> False
       | Inr (objs, diff) \<Rightarrow> Updated diff = [emptyAlpha10] \<and> Added diff = [emptyPkg])
   \<and> fst (regenerateRepositoryIndex demoRepo sRewritten) = None
   \<and> entryVersions (snd (regenerateRepositoryIndex demoRepo sRewritten)) ''alpha'' = [''1.0'']
   \<and> entryVersions (snd (regenerateRepositoryIndex demoRepo sRewritten)) ''beta'' = []
   \<and> Warnings (snd (regenerateRepositoryIndex demoRepo sRewritten))
       = [(''updated'', ''alpha-1.0.tgz''), (''added'', ''beta-1.0.tgz'')]"
  by (simp add: sRewritten_def emptyAlpha10_def emptyPkg_def demo_defs reconcile_defs
        entryVersions_def Let_def)

lemmas upload_defs = postPackageAndProvenanceRequestHandler_def postPackageRequestHandler_def
  postRequestHandler_def extractAndValidateFormFile_def storeFormFile_def addChartPackage_def
  PutObject_def DeleteObject_def removeChartPackage_def deleteChartVersionRequestHandler_def
  getStorageObjectRequestHandler_def getIndexFileRequestHandler_def

subsection \<open>What the reconcile steps leave alone\<close>

text \<open>The steps that work on the index write the heap of entries and the log, and
  nothing else of the server: not the backend, not \<open>StorageCache\<close>, not the field
  \<open>RepositoryIndex\<close>.\<close>

lemma onlyHeapLog_refl: "onlyHeapLog s s"
  by (simp add: onlyHeapLog_def)

lemma onlyHeapLog_trans: "onlyHeapLog s s1 \<Longrightarrow> onlyHeapLog s1 s2 \<Longrightarrow> onlyHeapLog s s2"
  unfolding onlyHeapLog_def
  by (metis (no_types, lifting) server.surjective server.update_convs(8,9))

lemma onlyHeapLog_fields:
  "onlyHeapLog s s' \<Longrightarrow>
     RepositoryIndex s' = RepositoryIndex s \<and> StorageBackend s' = StorageBackend s
     \<and> StorageCache s' = StorageCache s \<and> AllowOverwrite s' = AllowOverwrite s
     \<and> CacheRefreshPeriod s' = CacheRefreshPeriod s"
  unfolding onlyHeapLog_def
  by (metis (no_types, lifting) server.select_convs(1-7) server.surjective server.update_convs(8,9))

lemma check_frame: "onlyHeapLog s (snd (checkInvalidChartPackageError s obj err action))"
  by (simp add: checkInvalidChartPackageError_def onlyHeapLog_def)

lemma removeIndexObject_frame: "onlyHeapLog s (snd (snd (removeIndexObject R ix obj s)))"
  by (simp add: removeIndexObject_def RemoveEntry_def checkInvalidChartPackageError_def onlyHeapLog_def
      split: sum.splits prod.splits)

lemma updateIndexObject_frame: "onlyHeapLog s (snd (snd (updateIndexObject R ix obj s)))"
  by (simp add: updateIndexObject_def UpdateEntry_def AddEntry_def checkInvalidChartPackageError_def onlyHeapLog_def
      split: sum.splits prod.splits)

lemma removeIndexObjects_frame: "onlyHeapLog s (snd (snd (removeIndexObjects R ix objs s)))"
proof (induction objs arbitrary: ix s)
  case Nil
  show ?case by (simp add: onlyHeapLog_refl)
next
  case (Cons obj objs)
  obtain e ix1 s1 where r: "removeIndexObject R ix obj s = (e, ix1, s1)"
    by (cases "removeIndexObject R ix obj s") auto
  have f1: "onlyHeapLog s s1" using removeIndexObject_frame [of s R ix obj] r by simp
  show ?case
  proof (cases e)
    case None
    then show ?thesis using r f1 Cons.IH [of s1 ix1] by (auto intro: onlyHeapLog_trans)
  next
    case (Some a)
    then show ?thesis using r f1 by simp
  qed
qed

lemma updateIndexObjects_frame: "onlyHeapLog s (snd (snd (updateIndexObjects R ix objs s)))"
proof (induction objs arbitrary: ix s)
  case Nil
  show ?case by (simp add: onlyHeapLog_refl)
next
  case (Cons obj objs)
  obtain e ix1 s1 where r: "updateIndexObject R ix obj s = (e, ix1, s1)"
    by (cases "updateIndexObject R ix obj s") auto
  have f1: "onlyHeapLog s s1" using updateIndexObject_frame [of s R ix obj] r by simp
  show ?case
  proof (cases e)
    case None
    then show ?thesis using r f1 Cons.IH [of s1 ix1] by (auto intro: onlyHeapLog_trans)
  next
    case (Some a)
    then show ?thesis using r f1 by simp
  qed
qed

lemma loadObject_frame: "onlyHeapLog s (snd (loadObject R err obj s))"
  by (simp add: loadObject_def checkInvalidChartPackageError_def onlyHeapLog_def
      split: sum.splits prod.splits)

lemma loadObjects_frame: "onlyHeapLog s (snd (loadObjects R err objs s))"
proof (induction objs arbitrary: s)
  case Nil
  show ?case by (simp add: onlyHeapLog_refl)
next
  case (Cons obj objs)
  obtain slot s1 where r: "loadObject R err obj s = (slot, s1)"
    by (cases "loadObject R err obj s") auto
  have f1: "onlyHeapLog s s1" using loadObject_frame [of s R err obj] r by simp
  show ?case using r f1 Cons.IH [of s1]
    by (auto split: prod.splits intro: onlyHeapLog_trans)
qed

lemma addLoaded_frame: "onlyHeapLog s (snd (addLoaded R slots ix s))"
proof (induction R slots ix s rule: addLoaded.induct)
  case (1 R ix s)
  show ?case by (simp add: onlyHeapLog_refl)
next
  case (2 R slots ix s)
  then show ?case by simp
next
  case (3 R cv slots ix s)
  have f1: "onlyHeapLog s (snd (AddEntry R cv ix s))"
    by (simp add: AddEntry_def onlyHeapLog_def)
  show ?case using 3 [of "fst (AddEntry R cv ix s)" "snd (AddEntry R cv ix s)"] f1
    by (auto split: prod.splits intro: onlyHeapLog_trans)
qed

lemma addIndexObjectsAsync_frame: "onlyHeapLog s (snd (snd (addIndexObjectsAsync R ix objs s)))"
proof (cases "length objs = 0")
  case True
  then show ?thesis by (simp add: addIndexObjectsAsync_def onlyHeapLog_refl)
next
  case False
  obtain loaded s1 where l: "loadObjects R None objs s = (loaded, s1)"
    by (cases "loadObjects R None objs s") auto
  have f1: "onlyHeapLog s s1" using loadObjects_frame [of s R None objs] l by simp
  have f2: "onlyHeapLog s1 (snd (addLoaded R loaded (ix) s1))" by (rule addLoaded_frame)
  show ?thesis using False l onlyHeapLog_trans [OF f1 f2]
    by (simp add: addIndexObjectsAsync_def split: prod.splits)
qed

subsection \<open>The diff of a listing with itself\<close>

lemma find_distinct_path:
  "distinct (map Path xs) \<Longrightarrow> ob \<in> set xs \<Longrightarrow> find (\<lambda>o1. Path o1 = Path ob) xs = Some ob"
proof (induction xs)
  case Nil
  then show ?case by simp
next
  case (Cons x xs)
  then show ?case by (cases "Path x = Path ob") force+
qed

lemma GetObjectSliceDiff_same:
  assumes "distinct (map Path xs)"
  shows "GetObjectSliceDiff xs xs = \<lparr>Change = False, Removed = [], Added = [], Updated = []\<rparr>"
proof -
  have a: "filter (\<lambda>o2. find (\<lambda>o1. Path o1 = Path o2) xs = None) xs = []"
    using assms by (simp add: filter_empty_conv find_distinct_path)
  have u: "filter (\<lambda>o2. case find (\<lambda>o1. Path o1 = Path o2) xs of
                            None \<Rightarrow> False | Some o1 \<Rightarrow> Meta o1 \<noteq> Meta o2) xs = []"
    using assms by (simp add: filter_empty_conv find_distinct_path)
  show ?thesis
    by (simp add: GetObjectSliceDiff_def a u Let_def)
qed

lemma listObjectsGetDiff_Inr:
  "listObjectsGetDiff R s = Inr (objs, diff) \<Longrightarrow>
     \<not> ListFault (StorageBackend s) \<and> objs = filteredListing R s
     \<and> diff = GetObjectSliceDiff (StorageCache s) (filteredListing R s)"
  by (auto simp: listObjectsGetDiff_def ListObjects_def filteredListing_def Let_def
      split: if_splits)

lemma listObjectsGetDiff_eq:
  "\<not> ListFault (StorageBackend s) \<Longrightarrow>
     listObjectsGetDiff R s
       = Inr (filteredListing R s, GetObjectSliceDiff (StorageCache s) (filteredListing R s))"
  by (simp add: listObjectsGetDiff_def ListObjects_def filteredListing_def Let_def)

lemma regenerate_result:
  assumes "regenerateRepositoryIndex R s = (e, s1)"
  shows "StorageBackend s1 = StorageBackend s
       \<and> (e = None \<longrightarrow> \<not> ListFault (StorageBackend s) \<and> StorageCache s1 = filteredListing R s)
       \<and> (e \<noteq> None \<longrightarrow> onlyHeapLog s s1)"
proof (cases "listObjectsGetDiff R s")
  case (Inl err)
  then show ?thesis using assms by (auto simp: regenerateRepositoryIndex_def onlyHeapLog_refl)
next
  case (Inr p)
  obtain objs diff where p: "p = (objs, diff)" by (cases p) auto
  note l = listObjectsGetDiff_Inr [OF Inr [unfolded p]]
  define ix where "ix = \<lparr>IndexFile = IndexFile (RepositoryIndex s),
                     Raw = Raw (RepositoryIndex s), ChartURL = ChartURL (RepositoryIndex s)\<rparr>"
  obtain e1 ix1 s1' where r1: "removeIndexObjects R ix (Removed diff) s = (e1, ix1, s1')"
    by (cases "removeIndexObjects R ix (Removed diff) s") auto
  obtain e2 ix2 s2 where r2: "updateIndexObjects R ix1 (Updated diff) s1' = (e2, ix2, s2)"
    by (cases "updateIndexObjects R ix1 (Updated diff) s1'") auto
  obtain e3 ix3 s3 where r3: "addIndexObjectsAsync R ix2 (Added diff) s2 = (e3, ix3, s3)"
    by (cases "addIndexObjectsAsync R ix2 (Added diff) s2") auto
  have f1: "onlyHeapLog s s1'" using removeIndexObjects_frame [of s R ix "Removed diff"] r1 by simp
  have f2: "onlyHeapLog s1' s2" using updateIndexObjects_frame [of s1' R ix1 "Updated diff"] r2 by simp
  have f3: "onlyHeapLog s2 s3" using addIndexObjectsAsync_frame [of s2 R ix2 "Added diff"] r3 by simp
  have g2: "onlyHeapLog s s2" using f1 f2 by (rule onlyHeapLog_trans)
  have g3: "onlyHeapLog s s3" using g2 f3 by (rule onlyHeapLog_trans)
  have res: "(e, s1) =
       (case e1 of Some err \<Rightarrow> (Some err, s1')
        | None \<Rightarrow> (case e2 of Some err \<Rightarrow> (Some err, s2)
           | None \<Rightarrow> (case e3 of Some err \<Rightarrow> (Some err, s3)
              | None \<Rightarrow> (case Regenerate R ix3 s3 of Inl err \<Rightarrow> (Some err, s3)
                 | Inr ix4 \<Rightarrow> (None, s3\<lparr>RepositoryIndex := ix4, StorageCache := objs\<rparr>)))))"
    using assms Inr p r1 r2 r3
    unfolding regenerateRepositoryIndex_def Let_def ix_def [symmetric]
    by (cases e1; cases e2; cases e3; auto)
  show ?thesis
    using res l onlyHeapLog_fields [OF f1] onlyHeapLog_fields [OF g2] onlyHeapLog_fields [OF g3]
      f1 g2 g3
    by (auto split: option.splits sum.splits)
qed

subsection \<open>What a failed reconcile leaves alone\<close>

text \<open>A reconcile that returns an error has assigned neither \<open>RepositoryIndex\<close> nor
  \<open>StorageCache\<close> and has not written the backend; it may have written the heap of
  entries and the log.\<close>

lemma failed_reconcile_keeps_fields:
  assumes "regenerateRepositoryIndex R s = (Some err, s1)"
  shows "RepositoryIndex s1 = RepositoryIndex s \<and> StorageCache s1 = StorageCache s
       \<and> StorageBackend s1 = StorageBackend s"
proof -
  have "onlyHeapLog s s1" using regenerate_result [OF assms] by simp
  then show ?thesis by (simp add: onlyHeapLog_fields)
qed

subsection \<open>Lost fetch errors of the async loader\<close>

text \<open>
  Claim C1 (the code departs from it). The backend lists \<^verbatim>\<open>alpha-1.0.tgz\<close> and fails
  to fetch it with \<open>TransientIO\<close>. The loader's worker gets that error, yet
  \<open>addIndexObjectsAsync\<close> returns no error and the reconcile succeeds: the object is
  installed in \<open>StorageCache\<close> and has no entry in the index.
\<close>

theorem async_loader_loses_fetch_error:
  "getObjectChartVersion demoRepo sLoadFault alpha10 True = Inl TransientIO
   \<and> addIndexObjectsAsync demoRepo (RepositoryIndex sLoadFault) [alpha10] sLoadFault
       = (None, RepositoryIndex sLoadFault, sLoadFault)
   \<and> fst (regenerateRepositoryIndex demoRepo sLoadFault) = None
   \<and> StorageCache (snd (regenerateRepositoryIndex demoRepo sLoadFault)) = [alpha10]
   \<and> liveEntries (snd (regenerateRepositoryIndex demoRepo sLoadFault)) ''alpha'' = None"
  by (simp add: sLoadFault_def demo_defs reconcile_defs Let_def)

subsection \<open>A failed reconcile and the published entries\<close>

text \<open>
  Claim C2 (the code departs from it). The cache holds \<^verbatim>\<open>alpha-1.0.tgz\<close> and
  \<^verbatim>\<open>alpha-2.0.tgz\<close>; the listing lacks the first and has a newer second that the
  backend fails to fetch. The reconcile removes version 1.0 through the working index,
  then fails in the update step. The field \<open>RepositoryIndex\<close> and \<open>StorageCache\<close>
  are as before, but the working index shares the entries map of the published one, so
  the published entries have lost version 1.0.
\<close>

theorem failed_reconcile_changes_live_entries:
  "fst (regenerateRepositoryIndex demoRepo sUpdateFault) = Some TransientIO
   \<and> RepositoryIndex (snd (regenerateRepositoryIndex demoRepo sUpdateFault))
       = RepositoryIndex sUpdateFault
   \<and> StorageCache (snd (regenerateRepositoryIndex demoRepo sUpdateFault))
       = StorageCache sUpdateFault
   \<and> liveEntries sUpdateFault ''alpha'' = Some [cvAlpha20, cvAlpha10]
   \<and> liveEntries (snd (regenerateRepositoryIndex demoRepo sUpdateFault)) ''alpha''
       = Some [cvAlpha20]"
  by (simp add: sUpdateFault_def demo_defs reconcile_defs Let_def)

subsection \<open>The cache append of a failed add\<close>

text \<open>
  Claim C4 (the code departs from it). \<open>addChartPackage\<close> appends the object to
  \<open>StorageCache\<close> before it decodes it; when the decoder fails with an error other
  than \<open>ErrorInvalidChartPackage\<close> the function returns that error and the cache keeps
  the object. The raw upload of the same bytes answers 500 with the cache so extended.
\<close>

theorem addChartPackage_keeps_append_on_error:
  "addChartPackage demoRepo sPeriodic corruptPkg
     = (Some (Errorf ''corrupt archive''), sPeriodic\<lparr>StorageCache := [corruptPkg]\<rparr>)
   \<and> StorageCache sPeriodic = []
   \<and> fst (postPackageRequestHandler demoRepo sPeriodic (Inr [9, 1]))
       = JSON 500 (errorResponse (Errorf ''corrupt archive''))
   \<and> StorageCache (snd (postPackageRequestHandler demoRepo sPeriodic (Inr [9, 1])))
       = [corruptPkg]"
  by (simp add: sPeriodic_def corruptPkg_def demo_defs reconcile_defs upload_defs Let_def)

subsection \<open>A multipart upload whose provenance file is rejected\<close>

text \<open>
  Claim C6 (the code departs from it). In periodic-refresh mode the form carries a
  package and its provenance file; the backend stores the package and rejects the
  provenance file with \<open>TransientIO\<close>. The handler answers 500 with that error and
  deletes the package from storage, but the package was added to cache and index after
  it was stored, and both keep it.
\<close>

theorem failed_provenance_upload_leaves_index_entry:
  "fst (postPackageAndProvenanceRequestHandler demoRepo sProvFault formBoth)
     = JSON 500 (errorResponse TransientIO)
   \<and> Objects (StorageBackend (snd (postPackageAndProvenanceRequestHandler demoRepo sProvFault formBoth))) = []
   \<and> liveEntries sProvFault ''alpha'' = None
   \<and> liveEntries (snd (postPackageAndProvenanceRequestHandler demoRepo sProvFault formBoth)) ''alpha''
       = Some [\<lparr>Name = ''alpha'', Version = ''1.0'', Created = 10\<rparr>]
   \<and> StorageCache (snd (postPackageAndProvenanceRequestHandler demoRepo sProvFault formBoth))
       = [\<lparr>Path = ''alpha-1.0.tgz'', Content = [0, 1], Meta = 10\<rparr>]"
  by (simp add: sProvFault_def formBoth_def demo_defs reconcile_defs upload_defs Let_def)

subsection \<open>Two reconciles in a row\<close>

text \<open>
  Claim C7 (amended). When a reconcile, on the read path or not, returns no error, and
  the filtered listing has no path twice, then with the backend as the reconcile left it
  the diff of the next reconcile reports no change, and the next reconcile on the read
  path returns no error and leaves the whole server state as it is.
\<close>

theorem steady_state_reconcile_short_circuits:
  assumes first: "syncRepositoryIndex R s = (None, s1) \<or> regenerateRepositoryIndex R s = (None, s1)"
      and uniq: "distinct (map Path (filteredListing R s))"
  shows "StorageBackend s1 = StorageBackend s
       \<and> (\<exists>objs diff. listObjectsGetDiff R s1 = Inr (objs, diff) \<and> \<not> Change diff)
       \<and> syncRepositoryIndex R s1 = (None, s1)"
proof -
  have reg: "StorageBackend s1 = StorageBackend s
       \<and> (\<exists>objs diff. listObjectsGetDiff R s1 = Inr (objs, diff) \<and> \<not> Change diff)"
    if r: "regenerateRepositoryIndex R s = (None, s1)"
  proof -
    from regenerate_result [OF r]
    have b: "StorageBackend s1 = StorageBackend s" and nf: "\<not> ListFault (StorageBackend s)"
      and c: "StorageCache s1 = filteredListing R s" by auto
    have fl: "filteredListing R s1 = filteredListing R s" by (simp add: filteredListing_def b)
    have "listObjectsGetDiff R s1
        = Inr (filteredListing R s, GetObjectSliceDiff (filteredListing R s) (filteredListing R s))"
      using listObjectsGetDiff_eq [of s1 R] nf b c fl by simp
    then show ?thesis using b GetObjectSliceDiff_same [OF uniq] by simp
  qed
  have main: "StorageBackend s1 = StorageBackend s
       \<and> (\<exists>objs diff. listObjectsGetDiff R s1 = Inr (objs, diff) \<and> \<not> Change diff)"
    using first
  proof
    assume sy: "syncRepositoryIndex R s = (None, s1)"
    show ?thesis
    proof (cases "listObjectsGetDiff R s")
      case (Inl err)
      then show ?thesis using sy by (simp add: syncRepositoryIndex_def)
    next
      case (Inr p)
      obtain objs diff where p: "p = (objs, diff)" by (cases p) auto
      show ?thesis
      proof (cases "Change diff")
        case True
        then have "regenerateRepositoryIndex R s = (None, s1)"
          using sy Inr p by (simp add: syncRepositoryIndex_def)
        then show ?thesis by (rule reg)
      next
        case False
        then have "s1 = s" using sy Inr p by (simp add: syncRepositoryIndex_def)
        then show ?thesis using Inr p False by auto
      qed
    qed
  next
    assume "regenerateRepositoryIndex R s = (None, s1)"
    then show ?thesis by (rule reg)
  qed
  then obtain objs diff where d: "listObjectsGetDiff R s1 = Inr (objs, diff)" "\<not> Change diff"
    by auto
  then have "syncRepositoryIndex R s1 = (None, s1)"
    by (simp add: syncRepositoryIndex_def)
  with main show ?thesis by simp
qed

theorem steady_state_reconcile_short_circuits_witness:
  "fst (syncRepositoryIndex demoRepo sColdStart) = None
   \<and> distinct (map Path (filteredListing demoRepo sColdStart))
   \<and> StorageCache (snd (syncRepositoryIndex demoRepo sColdStart)) = [alpha10, alpha20]
   \<and> syncRepositoryIndex demoRepo (snd (syncRepositoryIndex demoRepo sColdStart))
       = (None, snd (syncRepositoryIndex demoRepo sColdStart))"
proof -
  have f: "fst (syncRepositoryIndex demoRepo sColdStart) = None
           \<and> StorageCache (snd (syncRepositoryIndex demoRepo sColdStart)) = [alpha10, alpha20]"
    by (simp add: sColdStart_def demo_defs reconcile_defs Let_def)
  then have h1: "syncRepositoryIndex demoRepo sColdStart
                   = (None, snd (syncRepositoryIndex demoRepo sColdStart))"
    by (simp add: prod_eq_iff)
  have h2: "distinct (map Path (filteredListing demoRepo sColdStart))"
    by (simp add: filteredListing_def sColdStart_def demo_defs HasSuffix_def)
  show ?thesis
    using steady_state_reconcile_short_circuits [OF disjI1 [OF h1] h2] f h2 by simp
qed

text \<open>The claim as stated fails after a reconcile that returned an error: from
  \<open>sUpdateFault\<close> the reconcile fails, the backend is as it was, and the diff of the
  next reconcile reports a change.\<close>

theorem failed_reconcile_is_retried:
  "fst (syncRepositoryIndex demoRepo sUpdateFault) = Some TransientIO
   \<and> StorageBackend (snd (syncRepositoryIndex demoRepo sUpdateFault)) = StorageBackend sUpdateFault
   \<and> (case listObjectsGetDiff demoRepo (snd (syncRepositoryIndex demoRepo sUpdateFault)) of
         Inl err \<Rightarrow> False | Inr (objs, diff) \<Rightarrow> Change diff)"
  by (simp add: sUpdateFault_def demo_defs reconcile_defs Let_def)

subsection \<open>Backend errors and status codes\<close>

lemma GetObject_error_kind: "GetObject b p = Inl err \<Longrightarrow> err \<noteq> ErrorInvalidChartPackage"
  by (auto simp: GetObject_def split: if_splits option.splits)

lemma updateIndexObject_fetch_fails:
  "GetObject (StorageBackend s) (Path ob) = Inl err \<Longrightarrow>
     updateIndexObject R ix ob s = (Some err, ix, s)"
  using GetObject_error_kind [of "StorageBackend s" "Path ob" err]
  by (simp add: updateIndexObject_def getObjectChartVersion_def checkInvalidChartPackageError_def)

lemma updateIndexObjects_fetch_fails:
  "ob \<in> set objs \<Longrightarrow> GetObject (StorageBackend s) (Path ob) = Inl err \<Longrightarrow>
     \<exists>e. fst (updateIndexObjects R ix objs s) = Some e \<and> (hd objs = ob \<longrightarrow> e = err)"
proof (induction objs arbitrary: ix s)
  case Nil
  then show ?case by simp
next
  case (Cons x objs)
  obtain e ix1 s1 where r: "updateIndexObject R ix x s = (e, ix1, s1)"
    by (cases "updateIndexObject R ix x s") auto
  show ?case
  proof (cases e)
    case (Some a)
    then show ?thesis
      using r updateIndexObject_fetch_fails [OF Cons.prems(2), of R ix] by auto
  next
    case None
    have ne: "x \<noteq> ob"
      using updateIndexObject_fetch_fails [OF Cons.prems(2), of R ix] r None by auto
    then have m: "ob \<in> set objs" using Cons.prems(1) by simp
    have "onlyHeapLog s s1" using updateIndexObject_frame [of s R ix x] r by simp
    then have "StorageBackend s1 = StorageBackend s" by (simp add: onlyHeapLog_fields)
    then have "GetObject (StorageBackend s1) (Path ob) = Inl err" using Cons.prems(2) by simp
    from Cons.IH [OF m this, of ix1] show ?thesis using r None ne by auto
  qed
qed

lemma sync_fails_on_update_fetch:
  assumes l: "listObjectsGetDiff R s = Inr (objs, diff)"
      and rm: "fst (removeIndexObjects R (workingIndex s) (Removed diff) s) = None"
      and m: "ob \<in> set (Updated diff)"
      and g: "GetObject (StorageBackend s) (Path ob) = Inl err"
  shows "\<exists>e. fst (syncRepositoryIndex R s) = Some e \<and> (hd (Updated diff) = ob \<longrightarrow> e = err)"
proof -
  have d: "diff = GetObjectSliceDiff (StorageCache s) (filteredListing R s)"
    using listObjectsGetDiff_Inr [OF l] by simp
  have "Updated diff \<noteq> []" using m by auto
  then have ch: "Change diff"
    unfolding d by (simp add: GetObjectSliceDiff_def Let_def)
  obtain e1 ix1 s1 where r1: "removeIndexObjects R (workingIndex s) (Removed diff) s = (e1, ix1, s1)"
    by (cases "removeIndexObjects R (workingIndex s) (Removed diff) s") auto
  have e1: "e1 = None" using rm r1 by simp
  have "onlyHeapLog s s1"
    using removeIndexObjects_frame [of s R "workingIndex s" "Removed diff"] r1 by simp
  then have "StorageBackend s1 = StorageBackend s" by (simp add: onlyHeapLog_fields)
  then have "GetObject (StorageBackend s1) (Path ob) = Inl err" using g by simp
  from updateIndexObjects_fetch_fails [OF m this, of R ix1]
  obtain e where u: "fst (updateIndexObjects R ix1 (Updated diff) s1) = Some e"
    and h: "hd (Updated diff) = ob \<longrightarrow> e = err" by auto
  obtain ix2 s2 where r2: "updateIndexObjects R ix1 (Updated diff) s1 = (Some e, ix2, s2)"
    using u by (cases "updateIndexObjects R ix1 (Updated diff) s1") auto
  have "fst (regenerateRepositoryIndex R s) = Some e"
    using l r1 e1 r2
    by (simp add: regenerateRepositoryIndex_def Let_def workingIndex_def)
  then have "fst (syncRepositoryIndex R s) = Some e"
    using l ch by (simp add: syncRepositoryIndex_def)
  then show ?thesis using h by blast
qed

lemma reads_answer_500:
  assumes "CacheRefreshPeriod s = 0" and "fst (syncRepositoryIndex R s) = Some e"
  shows "fst (getIndexFileRequestHandler R s) = JSON 500 (errorResponse e)
       \<and> fst (getAllChartsRequestHandler R s) = JSON 500 (errorResponse e)
       \<and> fst (getChartRequestHandler R s name) = JSON 500 (errorResponse e)
       \<and> fst (getChartVersionRequestHandler R s name version) = JSON 500 (errorResponse e)"
proof -
  obtain s1 where "syncRepositoryIndex R s = (Some e, s1)"
    using assms(2) by (cases "syncRepositoryIndex R s") auto
  then show ?thesis using assms(1)
    by (simp add: getIndexFileRequestHandler_def getAllChartsRequestHandler_def
          getChartRequestHandler_def getChartVersionRequestHandler_def Let_def)
qed

lemma reads_list_fails:
  assumes "ListObjects (StorageBackend s) = Inl err" and "CacheRefreshPeriod s = 0"
  shows "getIndexFileRequestHandler R s = (JSON 500 (errorResponse err), s)
       \<and> getAllChartsRequestHandler R s = (JSON 500 (errorResponse err), s)
       \<and> getChartRequestHandler R s name = (JSON 500 (errorResponse err), s)
       \<and> getChartVersionRequestHandler R s name version = (JSON 500 (errorResponse err), s)"
  using assms
  by (simp add: getIndexFileRequestHandler_def getAllChartsRequestHandler_def
        getChartRequestHandler_def getChartVersionRequestHandler_def Let_def
        syncRepositoryIndex_def listObjectsGetDiff_def)

lemma multipart_first_put_fails:
  assumes "extractFormFiles s req
             [(ChartPostFormFieldName s, ChartPackageFilenameFromContent R),
              (ProvPostFormFieldName s, ProvenanceFilenameFromContent R)] [] = Inr (ppf # ppFiles)"
      and "PutObject (StorageBackend s) (ppf_filename ppf) (ppf_content ppf) = Inl err"
  shows "postPackageAndProvenanceRequestHandler R s req = (JSON 500 (errorResponse err), s)"
  using assms
  by (simp add: postPackageAndProvenanceRequestHandler_def storeFormFile_def
      del: extractFormFiles.simps)

text \<open>
  Claim C9 (amended). A request in which a backend operation fails, with
  \<open>TransientIO\<close> or any other error, aborts and is answered 500 with the error when
  the failing operation is \<open>ListObjects\<close> on one of the four index reads in
  refresh-on-read mode; \<open>GetObject\<close> in the update step of the reconcile of such a
  read, the remove step having passed (the error answered is the error of the reconcile,
  which is that of \<open>GetObject\<close> when the object is the first of the update
  step); \<open>PutObject\<close> in a raw package upload, a raw provenance
  upload or any round of a multipart upload; or \<open>GetObject\<close> fetching the stored
  package again in a raw upload in periodic-refresh mode. Four operations are excepted:
  every error of \<open>GetObject\<close> in "get object" and of the package's
  \<open>DeleteObject\<close> in "delete version" is answered 404, with the server unchanged; an
  error of the provenance file's \<open>DeleteObject\<close> is ignored and the delete goes on;
  an error of \<open>GetObject\<close> in the overwrite check lets the upload go on.
\<close>

theorem backend_errors_by_handler:
  "(ListObjects (StorageBackend s) = Inl err \<and> CacheRefreshPeriod s = 0
      \<longrightarrow> getIndexFileRequestHandler R s = (JSON 500 (errorResponse err), s)
          \<and> getAllChartsRequestHandler R s = (JSON 500 (errorResponse err), s)
          \<and> getChartRequestHandler R s name = (JSON 500 (errorResponse err), s)
          \<and> getChartVersionRequestHandler R s name version
              = (JSON 500 (errorResponse err), s))
   \<and> (CacheRefreshPeriod s = 0 \<and> listObjectsGetDiff R s = Inr (objs, diff)
       \<and> fst (removeIndexObjects R (workingIndex s) (Removed diff) s) = None
       \<and> ob \<in> set (Updated diff) \<and> GetObject (StorageBackend s) (Path ob) = Inl err
      \<longrightarrow> (\<exists>e. fst (syncRepositoryIndex R s) = Some e
               \<and> (hd (Updated diff) = ob \<longrightarrow> e = err)
               \<and> fst (getIndexFileRequestHandler R s) = JSON 500 (errorResponse e)
               \<and> fst (getAllChartsRequestHandler R s) = JSON 500 (errorResponse e)
               \<and> fst (getChartRequestHandler R s name) = JSON 500 (errorResponse e)
               \<and> fst (getChartVersionRequestHandler R s name version)
                   = JSON 500 (errorResponse e)))
   \<and> (ChartPackageFilenameFromContent R content = Inr fname
       \<and> (AllowOverwrite s \<or> GetObject (StorageBackend s) fname = Inl err')
       \<and> PutObject (StorageBackend s) fname content = Inl err
      \<longrightarrow> postPackageRequestHandler R s (Inr content) = (JSON 500 (errorResponse err), s))
   \<and> (ProvenanceFilenameFromContent R content = Inr fname
       \<and> (AllowOverwrite s \<or> GetObject (StorageBackend s) fname = Inl err')
       \<and> PutObject (StorageBackend s) fname content = Inl err
      \<longrightarrow> postProvenanceFileRequestHandler R s (Inr content)
            = (JSON 500 (errorResponse err), s))
   \<and> (extractFormFiles s req
         [(ChartPostFormFieldName s, ChartPackageFilenameFromContent R),
          (ProvPostFormFieldName s, ProvenanceFilenameFromContent R)] [] = Inr (ppf # ppFiles)
       \<and> PutObject (StorageBackend s) (ppf_filename ppf) (ppf_content ppf) = Inl err
      \<longrightarrow> postPackageAndProvenanceRequestHandler R s req = (JSON 500 (errorResponse err), s))
   \<and> (PutObject (StorageBackend s) (ppf_filename ppf) (ppf_content ppf) = Inl err
      \<longrightarrow> storeFormFiles R (ppf # ppFiles) storedFiles s
            = (JSON 500 (errorResponse err), deleteStoredFiles storedFiles s))
   \<and> (ChartPackageFilenameFromContent R content = Inr fname
       \<and> (AllowOverwrite s \<or> GetObject (StorageBackend s) fname = Inl err')
       \<and> PutObject (StorageBackend s) fname content = Inr b
       \<and> 0 < CacheRefreshPeriod s \<and> GetObject b fname = Inl err
      \<longrightarrow> postPackageRequestHandler R s (Inr content)
            = (JSON 500 (errorResponse err), s\<lparr>StorageBackend := b\<rparr>))
   \<and> (GetObject (StorageBackend s) fname = Inl err
       \<and> (HasSuffix fname (ChartPackageFileExtension R)
          \<or> HasSuffix fname (ProvenanceFileExtension R))
      \<longrightarrow> getStorageObjectRequestHandler R s fname = JSON 404 notFoundErrorResponse)
   \<and> (DeleteObject (StorageBackend s) (ChartPackageFilenameFromNameVersion R name version)
         = Inl err
      \<longrightarrow> deleteChartVersionRequestHandler R s name version
            = (JSON 404 notFoundErrorResponse, s))
   \<and> (DeleteObject (StorageBackend s) (ChartPackageFilenameFromNameVersion R name version)
         = Inr b
       \<and> DeleteObject b (ProvenanceFilenameFromNameVersion R name version) = Inl err
      \<longrightarrow> deleteChartVersionRequestHandler R s name version
            = (if 0 < CacheRefreshPeriod s then
                 (case removeChartPackage R (s\<lparr>StorageBackend := b\<rparr>)
                         (ChartPackageFilenameFromNameVersion R name version) of
                    (Some e, s2) \<Rightarrow> (JSON 500 (errorResponse e), s2)
                  | (None, s2) \<Rightarrow> (JSON 200 objectDeletedResponse, s2))
               else (JSON 200 objectDeletedResponse, s\<lparr>StorageBackend := b\<rparr>)))
   \<and> (ChartPackageFilenameFromContent R content = Inr fname
       \<and> GetObject (StorageBackend s) fname = Inl err
       \<and> PutObject (StorageBackend s) fname content = Inr b
       \<and> CacheRefreshPeriod s \<le> 0
      \<longrightarrow> postPackageRequestHandler R s (Inr content)
            = (JSON 201 objectSavedResponse, s\<lparr>StorageBackend := b\<rparr>))
   \<and> (ProvenanceFilenameFromContent R content = Inr fname
       \<and> GetObject (StorageBackend s) fname = Inl err
       \<and> PutObject (StorageBackend s) fname content = Inr b
      \<longrightarrow> postProvenanceFileRequestHandler R s (Inr content)
            = (JSON 201 objectSavedResponse, s\<lparr>StorageBackend := b\<rparr>))
   \<and> (GetObject (StorageBackend s) fname = Inl err \<and> req field = FileContent content
       \<and> fn content = Inr fname
      \<longrightarrow> extractAndValidateFormFile s req field fn
            = (Some \<lparr>ppf_filename = fname, ppf_content = content, ppf_field = field\<rparr>,
               200, None))"
proof -
  have pk: "ProvenanceFilenameFromContent R content = Inr fname
       \<and> GetObject (StorageBackend s) fname = Inl err
       \<and> PutObject (StorageBackend s) fname content = Inr b
      \<longrightarrow> postProvenanceFileRequestHandler R s (Inr content)
            = (JSON 201 objectSavedResponse, s\<lparr>StorageBackend := b\<rparr>)"
    by (simp add: postProvenanceFileRequestHandler_def)
  have xk: "GetObject (StorageBackend s) fname = Inl err \<and> req field = FileContent content
       \<and> fn content = Inr fname
      \<longrightarrow> extractAndValidateFormFile s req field fn
            = (Some \<lparr>ppf_filename = fname, ppf_content = content, ppf_field = field\<rparr>,
               200, None)"
    by (simp add: extractAndValidateFormFile_def)
  have upd: "CacheRefreshPeriod s = 0 \<and> listObjectsGetDiff R s = Inr (objs, diff)
       \<and> fst (removeIndexObjects R (workingIndex s) (Removed diff) s) = None
       \<and> ob \<in> set (Updated diff) \<and> GetObject (StorageBackend s) (Path ob) = Inl err
      \<longrightarrow> (\<exists>e. fst (syncRepositoryIndex R s) = Some e
               \<and> (hd (Updated diff) = ob \<longrightarrow> e = err)
               \<and> fst (getIndexFileRequestHandler R s) = JSON 500 (errorResponse e)
               \<and> fst (getAllChartsRequestHandler R s) = JSON 500 (errorResponse e)
               \<and> fst (getChartRequestHandler R s name) = JSON 500 (errorResponse e)
               \<and> fst (getChartVersionRequestHandler R s name version)
                   = JSON 500 (errorResponse e))"
  proof (intro impI, elim conjE)
    assume p: "CacheRefreshPeriod s = 0" and l: "listObjectsGetDiff R s = Inr (objs, diff)"
      and rm: "fst (removeIndexObjects R (workingIndex s) (Removed diff) s) = None"
      and m: "ob \<in> set (Updated diff)"
      and g: "GetObject (StorageBackend s) (Path ob) = Inl err"
    from sync_fails_on_update_fetch [OF l rm m g]
    obtain e where e: "fst (syncRepositoryIndex R s) = Some e"
      and h: "hd (Updated diff) = ob \<longrightarrow> e = err" by auto
    from reads_answer_500 [OF p e, of name version] e h
    show "\<exists>e. fst (syncRepositoryIndex R s) = Some e
               \<and> (hd (Updated diff) = ob \<longrightarrow> e = err)
               \<and> fst (getIndexFileRequestHandler R s) = JSON 500 (errorResponse e)
               \<and> fst (getAllChartsRequestHandler R s) = JSON 500 (errorResponse e)
               \<and> fst (getChartRequestHandler R s name) = JSON 500 (errorResponse e)
               \<and> fst (getChartVersionRequestHandler R s name version)
                   = JSON 500 (errorResponse e)"
      by blast
  qed
  have lst: "ListObjects (StorageBackend s) = Inl err \<and> CacheRefreshPeriod s = 0
      \<longrightarrow> getIndexFileRequestHandler R s = (JSON 500 (errorResponse err), s)
          \<and> getAllChartsRequestHandler R s = (JSON 500 (errorResponse err), s)
          \<and> getChartRequestHandler R s name = (JSON 500 (errorResponse err), s)
          \<and> getChartVersionRequestHandler R s name version
              = (JSON 500 (errorResponse err), s)"
    using reads_list_fails [of s err R name version] by blast
  have raw: "ChartPackageFilenameFromContent R content = Inr fname
       \<and> (AllowOverwrite s \<or> GetObject (StorageBackend s) fname = Inl err')
       \<and> PutObject (StorageBackend s) fname content = Inl err
      \<longrightarrow> postPackageRequestHandler R s (Inr content) = (JSON 500 (errorResponse err), s)"
    by (auto simp: postPackageRequestHandler_def)
  have prv: "ProvenanceFilenameFromContent R content = Inr fname
       \<and> (AllowOverwrite s \<or> GetObject (StorageBackend s) fname = Inl err')
       \<and> PutObject (StorageBackend s) fname content = Inl err
      \<longrightarrow> postProvenanceFileRequestHandler R s (Inr content)
            = (JSON 500 (errorResponse err), s)"
    by (auto simp: postProvenanceFileRequestHandler_def)
  have mp: "extractFormFiles s req
         [(ChartPostFormFieldName s, ChartPackageFilenameFromContent R),
          (ProvPostFormFieldName s, ProvenanceFilenameFromContent R)] [] = Inr (ppf # ppFiles)
       \<and> PutObject (StorageBackend s) (ppf_filename ppf) (ppf_content ppf) = Inl err
      \<longrightarrow> postPackageAndProvenanceRequestHandler R s req = (JSON 500 (errorResponse err), s)"
    using multipart_first_put_fails [of s req R ppf ppFiles err] by blast
  have st: "PutObject (StorageBackend s) (ppf_filename ppf) (ppf_content ppf) = Inl err
      \<longrightarrow> storeFormFiles R (ppf # ppFiles) storedFiles s
            = (JSON 500 (errorResponse err), deleteStoredFiles storedFiles s)"
    by (simp add: storeFormFile_def)
  have rf: "ChartPackageFilenameFromContent R content = Inr fname
       \<and> (AllowOverwrite s \<or> GetObject (StorageBackend s) fname = Inl err')
       \<and> PutObject (StorageBackend s) fname content = Inr b
       \<and> 0 < CacheRefreshPeriod s \<and> GetObject b fname = Inl err
      \<longrightarrow> postPackageRequestHandler R s (Inr content)
            = (JSON 500 (errorResponse err), s\<lparr>StorageBackend := b\<rparr>)"
    by (auto simp: postPackageRequestHandler_def)
  have go: "GetObject (StorageBackend s) fname = Inl err
       \<and> (HasSuffix fname (ChartPackageFileExtension R)
          \<or> HasSuffix fname (ProvenanceFileExtension R))
      \<longrightarrow> getStorageObjectRequestHandler R s fname = JSON 404 notFoundErrorResponse"
    by (auto simp: getStorageObjectRequestHandler_def)
  have dl: "DeleteObject (StorageBackend s) (ChartPackageFilenameFromNameVersion R name version)
         = Inl err
      \<longrightarrow> deleteChartVersionRequestHandler R s name version
            = (JSON 404 notFoundErrorResponse, s)"
    by (simp add: deleteChartVersionRequestHandler_def)
  have dp: "DeleteObject (StorageBackend s) (ChartPackageFilenameFromNameVersion R name version)
         = Inr b
       \<and> DeleteObject b (ProvenanceFilenameFromNameVersion R name version) = Inl err
      \<longrightarrow> deleteChartVersionRequestHandler R s name version
            = (if 0 < CacheRefreshPeriod s then
                 (case removeChartPackage R (s\<lparr>StorageBackend := b\<rparr>)
                         (ChartPackageFilenameFromNameVersion R name version) of
                    (Some e, s2) \<Rightarrow> (JSON 500 (errorResponse e), s2)
                  | (None, s2) \<Rightarrow> (JSON 200 objectDeletedResponse, s2))
               else (JSON 200 objectDeletedResponse, s\<lparr>StorageBackend := b\<rparr>))"
    by (simp add: deleteChartVersionRequestHandler_def)
  have ck: "ChartPackageFilenameFromContent R content = Inr fname
       \<and> GetObject (StorageBackend s) fname = Inl err
       \<and> PutObject (StorageBackend s) fname content = Inr b
       \<and> CacheRefreshPeriod s \<le> 0
      \<longrightarrow> postPackageRequestHandler R s (Inr content)
            = (JSON 201 objectSavedResponse, s\<lparr>StorageBackend := b\<rparr>)"
    by (simp add: postPackageRequestHandler_def)
  from lst upd raw prv mp st rf go dl dp ck pk xk show ?thesis by blast
qed

theorem backend_errors_by_handler_witness:
  "ListObjects (StorageBackend sListFault) = Inl TransientIO
   \<and> CacheRefreshPeriod sListFault = 0
   \<and> getAllChartsRequestHandler demoRepo sListFault
       = (JSON 500 (errorResponse TransientIO), sListFault)
   \<and> getChartVersionRequestHandler demoRepo sListFault ''alpha'' ''latest''
       = (JSON 500 (errorResponse TransientIO), sListFault)
   \<and> CacheRefreshPeriod sUpdateFault = 0
   \<and> GetObject (StorageBackend sUpdateFault) (Path (alpha20\<lparr>Meta := 5\<rparr>)) = Inl TransientIO
   \<and> fst (getIndexFileRequestHandler demoRepo sUpdateFault)
       = JSON 500 (errorResponse TransientIO)
   \<and> fst (getChartRequestHandler demoRepo sUpdateFault ''alpha'')
       = JSON 500 (errorResponse TransientIO)
   \<and> PutObject (StorageBackend sPutFault) ''alpha-1.0.tgz'' [0, 1] = Inl TransientIO
   \<and> postPackageRequestHandler demoRepo sPutFault (Inr [0, 1])
       = (JSON 500 (errorResponse TransientIO), sPutFault)
   \<and> PutObject (StorageBackend sPutFault) ''alpha-1.0.tgz.prov'' [0, 1] = Inl TransientIO
   \<and> postProvenanceFileRequestHandler demoRepo sPutFault (Inr [0, 1])
       = (JSON 500 (errorResponse TransientIO), sPutFault)
   \<and> postPackageAndProvenanceRequestHandler demoRepo sPutFault formChart
       = (JSON 500 (errorResponse TransientIO), sPutFault)
   \<and> 0 < CacheRefreshPeriod sRefetchFault
   \<and> fst (postPackageRequestHandler demoRepo sRefetchFault (Inr [0, 1]))
       = JSON 500 (errorResponse TransientIO)
   \<and> GetObject (StorageBackend sLoadFault) ''alpha-1.0.tgz'' = Inl TransientIO
   \<and> getStorageObjectRequestHandler demoRepo sLoadFault ''alpha-1.0.tgz''
       = JSON 404 notFoundErrorResponse
   \<and> DeleteObject (StorageBackend sDeleteFault) ''alpha-1.0.tgz'' = Inl TransientIO
   \<and> deleteChartVersionRequestHandler demoRepo sDeleteFault ''alpha'' ''1.0''
       = (JSON 404 notFoundErrorResponse, sDeleteFault)
   \<and> fst (deleteChartVersionRequestHandler demoRepo sProvDeleteFault ''alpha'' ''1.0'')
       = JSON 200 objectDeletedResponse
   \<and> GetObject (StorageBackend sCheckFault) ''alpha-1.0.tgz'' = Inl TransientIO
   \<and> fst (postPackageRequestHandler demoRepo sCheckFault (Inr [0, 1]))
       = JSON 201 objectSavedResponse"
proof -
  have l: "ListObjects (StorageBackend sListFault) = Inl TransientIO
           \<and> CacheRefreshPeriod sListFault = 0"
    by (simp add: sListFault_def demo_defs ListObjects_def)
  have u: "CacheRefreshPeriod sUpdateFault = 0
           \<and> listObjectsGetDiff demoRepo sUpdateFault
               = Inr ([alpha20\<lparr>Meta := 5\<rparr>],
                      \<lparr>Change = True, Removed = [alpha10], Added = [],
                       Updated = [alpha20\<lparr>Meta := 5\<rparr>]\<rparr>)
           \<and> fst (removeIndexObjects demoRepo (workingIndex sUpdateFault) [alpha10]
                    sUpdateFault) = None
           \<and> GetObject (StorageBackend sUpdateFault) (Path (alpha20\<lparr>Meta := 5\<rparr>))
               = Inl TransientIO"
    by (simp add: sUpdateFault_def workingIndex_def demo_defs reconcile_defs Let_def)
  have p: "ChartPackageFilenameFromContent demoRepo [0, 1] = Inr ''alpha-1.0.tgz''
           \<and> ProvenanceFilenameFromContent demoRepo [0, 1] = Inr ''alpha-1.0.tgz.prov''
           \<and> GetObject (StorageBackend sPutFault) ''alpha-1.0.tgz'' = Inl NotFound
           \<and> GetObject (StorageBackend sPutFault) ''alpha-1.0.tgz.prov'' = Inl NotFound
           \<and> PutObject (StorageBackend sPutFault) ''alpha-1.0.tgz'' [0, 1] = Inl TransientIO
           \<and> PutObject (StorageBackend sPutFault) ''alpha-1.0.tgz.prov'' [0, 1]
               = Inl TransientIO"
    by (simp add: sPutFault_def demo_defs GetObject_def PutObject_def)
  have m: "extractFormFiles sPutFault formChart
             [(ChartPostFormFieldName sPutFault, ChartPackageFilenameFromContent demoRepo),
              (ProvPostFormFieldName sPutFault, ProvenanceFilenameFromContent demoRepo)] []
             = Inr [\<lparr>ppf_filename = ''alpha-1.0.tgz'', ppf_content = [0, 1],
                     ppf_field = ''chart''\<rparr>]"
    by (simp add: sPutFault_def formChart_def demo_defs extractAndValidateFormFile_def
          GetObject_def)
  have r: "GetObject (StorageBackend sRefetchFault) ''alpha-1.0.tgz'' = Inl TransientIO
           \<and> PutObject (StorageBackend sRefetchFault) ''alpha-1.0.tgz'' [0, 1]
               = Inr ((StorageBackend sRefetchFault)
                        \<lparr>Objects := [\<lparr>Path = ''alpha-1.0.tgz'', Content = [0, 1], Meta = 10\<rparr>],
                          Clock := 11\<rparr>)
           \<and> 0 < CacheRefreshPeriod sRefetchFault
           \<and> GetObject ((StorageBackend sRefetchFault)
                        \<lparr>Objects := [\<lparr>Path = ''alpha-1.0.tgz'', Content = [0, 1], Meta = 10\<rparr>],
                          Clock := 11\<rparr>) ''alpha-1.0.tgz'' = Inl TransientIO"
    by (simp add: sRefetchFault_def demo_defs GetObject_def PutObject_def)
  have g: "GetObject (StorageBackend sLoadFault) ''alpha-1.0.tgz'' = Inl TransientIO
           \<and> HasSuffix ''alpha-1.0.tgz'' (ChartPackageFileExtension demoRepo)"
    by (simp add: sLoadFault_def demo_defs GetObject_def HasSuffix_def)
  have d: "DeleteObject (StorageBackend sDeleteFault) ''alpha-1.0.tgz'' = Inl TransientIO
           \<and> ChartPackageFilenameFromNameVersion demoRepo ''alpha'' ''1.0'' = ''alpha-1.0.tgz''
           \<and> ProvenanceFilenameFromNameVersion demoRepo ''alpha'' ''1.0''
               = ''alpha-1.0.tgz.prov''"
    by (simp add: sDeleteFault_def demo_defs DeleteObject_def)
  have dp: "DeleteObject (StorageBackend sProvDeleteFault) ''alpha-1.0.tgz''
              = Inr ((StorageBackend sProvDeleteFault)\<lparr>Objects := []\<rparr>)
            \<and> DeleteObject ((StorageBackend sProvDeleteFault)\<lparr>Objects := []\<rparr>)
                 ''alpha-1.0.tgz.prov'' = Inl TransientIO
            \<and> \<not> 0 < CacheRefreshPeriod sProvDeleteFault"
    by (simp add: sProvDeleteFault_def demo_defs DeleteObject_def)
  have c: "GetObject (StorageBackend sCheckFault) ''alpha-1.0.tgz'' = Inl TransientIO
           \<and> PutObject (StorageBackend sCheckFault) ''alpha-1.0.tgz'' [0, 1]
               = Inr ((StorageBackend sCheckFault)
                        \<lparr>Objects := [\<lparr>Path = ''alpha-1.0.tgz'', Content = [0, 1], Meta = 10\<rparr>],
                          Clock := 11\<rparr>)
           \<and> CacheRefreshPeriod sCheckFault \<le> 0"
    by (simp add: sCheckFault_def demo_defs GetObject_def PutObject_def)
  have upd: "fst (getIndexFileRequestHandler demoRepo sUpdateFault)
               = JSON 500 (errorResponse TransientIO)
             \<and> fst (getChartRequestHandler demoRepo sUpdateFault ''alpha'')
               = JSON 500 (errorResponse TransientIO)"
    using backend_errors_by_handler
            [where s = sUpdateFault and R = demoRepo and err = TransientIO
               and ob = "alpha20\<lparr>Meta := 5\<rparr>" and name = "''alpha''"
               and objs = "[alpha20\<lparr>Meta := 5\<rparr>]"
               and diff = "\<lparr>Change = True, Removed = [alpha10], Added = [],
                           Updated = [alpha20\<lparr>Meta := 5\<rparr>]\<rparr>"]
          u
    by auto
  show ?thesis
    using backend_errors_by_handler
            [where s = sListFault and R = demoRepo and err = TransientIO
               and name = "''alpha''" and version = "''latest''"]
          backend_errors_by_handler
            [where s = sPutFault and R = demoRepo and err = TransientIO and err' = NotFound
               and content = "[0, 1]" and fname = "''alpha-1.0.tgz''"]
          backend_errors_by_handler
            [where s = sPutFault and R = demoRepo and err = TransientIO and err' = NotFound
               and content = "[0, 1]" and fname = "''alpha-1.0.tgz.prov''"]
          backend_errors_by_handler
            [where s = sPutFault and R = demoRepo and err = TransientIO and req = formChart
               and ppf = "\<lparr>ppf_filename = ''alpha-1.0.tgz'', ppf_content = [0, 1],
                          ppf_field = ''chart''\<rparr>" and ppFiles = "[]"]
          backend_errors_by_handler
            [where s = sRefetchFault and R = demoRepo and err = TransientIO
               and err' = TransientIO and content = "[0, 1]" and fname = "''alpha-1.0.tgz''"
               and b = "(StorageBackend sRefetchFault)
                        \<lparr>Objects := [\<lparr>Path = ''alpha-1.0.tgz'', Content = [0, 1], Meta = 10\<rparr>],
                          Clock := 11\<rparr>"]
          backend_errors_by_handler
            [where s = sLoadFault and R = demoRepo and err = TransientIO
               and fname = "''alpha-1.0.tgz''"]
          backend_errors_by_handler
            [where s = sDeleteFault and R = demoRepo and err = TransientIO
               and name = "''alpha''" and version = "''1.0''"]
          backend_errors_by_handler
            [where s = sProvDeleteFault and R = demoRepo and err = TransientIO
               and name = "''alpha''" and version = "''1.0''"
               and b = "(StorageBackend sProvDeleteFault)\<lparr>Objects := []\<rparr>"]
          backend_errors_by_handler
            [where s = sCheckFault and R = demoRepo and err = TransientIO
               and content = "[0, 1]" and fname = "''alpha-1.0.tgz''"
               and b = "(StorageBackend sCheckFault)
                        \<lparr>Objects := [\<lparr>Path = ''alpha-1.0.tgz'', Content = [0, 1], Meta = 10\<rparr>],
                          Clock := 11\<rparr>"]
          l u p m r g d dp c upd
    by simp
qed

text \<open>The claim as stated fails in both handlers it names, where a \<open>TransientIO\<close>
  error of \<open>GetObject\<close> in "get object" and of \<open>DeleteObject\<close> in "delete
  version" is answered 404; and a \<open>TransientIO\<close> error of the provenance file's
  \<open>DeleteObject\<close> and of the overwrite check's \<open>GetObject\<close> does not abort the
  request, which is answered 200 and 201.\<close>

theorem transient_errors_answered_404:
  "GetObject (StorageBackend sLoadFault) ''alpha-1.0.tgz'' = Inl TransientIO
   \<and> getStorageObjectRequestHandler demoRepo sLoadFault ''alpha-1.0.tgz''
       = JSON 404 notFoundErrorResponse
   \<and> DeleteObject (StorageBackend sDeleteFault) ''alpha-1.0.tgz'' = Inl TransientIO
   \<and> deleteChartVersionRequestHandler demoRepo sDeleteFault ''alpha'' ''1.0''
       = (JSON 404 notFoundErrorResponse, sDeleteFault)
   \<and> DeleteObject ((StorageBackend sProvDeleteFault)\<lparr>Objects := []\<rparr>) ''alpha-1.0.tgz.prov''
       = Inl TransientIO
   \<and> fst (deleteChartVersionRequestHandler demoRepo sProvDeleteFault ''alpha'' ''1.0'')
       = JSON 200 objectDeletedResponse
   \<and> GetObject (StorageBackend sCheckFault) ''alpha-1.0.tgz'' = Inl TransientIO
   \<and> fst (postPackageRequestHandler demoRepo sCheckFault (Inr [0, 1]))
       = JSON 201 objectSavedResponse"
  by (simp add: sLoadFault_def sDeleteFault_def sProvDeleteFault_def sCheckFault_def
        demo_defs reconcile_defs upload_defs Let_def)

subsection \<open>Deleting a version\<close>

lemma DeleteObject_absent:
  "DeleteObject b p = Inr b' \<Longrightarrow> find (\<lambda>ob. Path ob = p) (Objects b') = None"
  by (auto simp: DeleteObject_def find_None_iff split: if_splits option.splits)

lemma DeleteObject_keeps_absent:
  "find (\<lambda>ob. Path ob = p) (Objects b) = None \<Longrightarrow> DeleteObject b q = Inr b'
     \<Longrightarrow> find (\<lambda>ob. Path ob = p) (Objects b') = None"
  by (auto simp: DeleteObject_def find_None_iff split: if_splits option.splits)

lemma DeleteObject_fails_when_absent:
  "find (\<lambda>ob. Path ob = p) (Objects b) = None \<Longrightarrow> \<exists>err. DeleteObject b p = Inl err"
  by (simp add: DeleteObject_def)

lemma removeChartPackage_backend:
  "StorageBackend (snd (removeChartPackage R s fname)) = StorageBackend s"
proof (cases "findPath fname (StorageCache s)")
  case None
  then show ?thesis by (simp add: removeChartPackage_def)
next
  case (Some idx)
  obtain e ix1 s1 where r: "removeIndexObject R (RepositoryIndex s) (StorageCache s ! idx) s = (e, ix1, s1)"
    by (cases "removeIndexObject R (RepositoryIndex s) (StorageCache s ! idx) s") auto
  have "onlyHeapLog s s1"
    using removeIndexObject_frame [of s R "RepositoryIndex s" "StorageCache s ! idx"] r by simp
  then have "StorageBackend s1 = StorageBackend s" by (simp add: onlyHeapLog_fields)
  then show ?thesis using Some r by (cases e) (simp_all add: removeChartPackage_def)
qed

lemma removeFromEntries_gone:
  "Version cv \<notin> set (map Version (case removeFromEntries cv es (Name cv) of
                                     None \<Rightarrow> [] | Some vs \<Rightarrow> vs))"
  by (auto simp: removeFromEntries_def Let_def split: option.splits if_splits)

lemma removeChartPackage_found:
  assumes "findPath fname (StorageCache s) = Some i"
      and "ChartVersionFromStorageObject R (StorageCache s ! i) = Inr cv"
  shows "removeChartPackage R s fname
           = (None, s\<lparr>Heap := (Heap s)(IndexFile (RepositoryIndex s)
                                   := removeFromEntries cv (liveEntries s)),
                      RepositoryIndex := (RepositoryIndex s)\<lparr>Raw := []\<rparr>,
                      StorageCache := take i (StorageCache s) @ drop (Suc i) (StorageCache s)\<rparr>)"
  using assms
  by (simp add: removeChartPackage_def removeIndexObject_def getObjectChartVersion_def
        RemoveEntry_def liveEntries_def)

text \<open>
  Claim C8 (amended). When the package's \<open>DeleteObject\<close> succeeds, the handler has
  removed the package file from storage and has tried to remove the provenance file,
  ignoring its error. In refresh-on-read mode it answers 200 and changes nothing else: the
  index is left to the reconcile of the next read. In periodic-refresh mode it answers 500
  when \<open>StorageCache\<close> has no object of that filename or when the cached object fails
  to decode with an error other than \<open>ErrorInvalidChartPackage\<close>, in both cases with
  index and cache as they were; it answers 200 when the cached object decodes, and then
  the version is gone from the index's entries for the chart and the object from the
  cache; it answers 200 with the entries unchanged when the cached object is an invalid
  package. In every case a second delete of the same name and version answers 404.
\<close>

theorem delete_version_outcomes:
  assumes del: "DeleteObject (StorageBackend s) (ChartPackageFilenameFromNameVersion R name version)
                  = Inr b1"
      and res: "deleteChartVersionRequestHandler R s name version = (rsp, s')"
  shows "StorageBackend s'
           = (case DeleteObject b1 (ProvenanceFilenameFromNameVersion R name version) of
                Inl err \<Rightarrow> b1 | Inr b2 \<Rightarrow> b2)
       \<and> find (\<lambda>ob. Path ob = ChartPackageFilenameFromNameVersion R name version)
            (Objects (StorageBackend s')) = None
       \<and> (CacheRefreshPeriod s \<le> 0 \<longrightarrow>
            rsp = JSON 200 objectDeletedResponse
            \<and> s' = s\<lparr>StorageBackend := StorageBackend s'\<rparr>)
       \<and> (0 < CacheRefreshPeriod s
          \<and> findPath (ChartPackageFilenameFromNameVersion R name version) (StorageCache s) = None
          \<longrightarrow> rsp = JSON 500 (errorResponse
                   (notInCacheError (ChartPackageFilenameFromNameVersion R name version)))
              \<and> s' = s\<lparr>StorageBackend := StorageBackend s'\<rparr>)
       \<and> (0 < CacheRefreshPeriod s
          \<and> findPath (ChartPackageFilenameFromNameVersion R name version) (StorageCache s) = Some i
          \<and> ChartVersionFromStorageObject R (StorageCache s ! i) = Inr cv
          \<longrightarrow> rsp = JSON 200 objectDeletedResponse
              \<and> Version cv \<notin> set (entryVersions s' (Name cv))
              \<and> StorageCache s' = take i (StorageCache s) @ drop (Suc i) (StorageCache s))
       \<and> (0 < CacheRefreshPeriod s
          \<and> findPath (ChartPackageFilenameFromNameVersion R name version) (StorageCache s) = Some i
          \<and> ChartVersionFromStorageObject R (StorageCache s ! i) = Inl ErrorInvalidChartPackage
          \<longrightarrow> rsp = JSON 200 objectDeletedResponse
              \<and> liveEntries s' = liveEntries s
              \<and> StorageCache s' = take i (StorageCache s) @ drop (Suc i) (StorageCache s))
       \<and> (0 < CacheRefreshPeriod s
          \<and> findPath (ChartPackageFilenameFromNameVersion R name version) (StorageCache s) = Some i
          \<and> ChartVersionFromStorageObject R (StorageCache s ! i) = Inl err
          \<and> err \<noteq> ErrorInvalidChartPackage
          \<longrightarrow> rsp = JSON 500 (errorResponse err)
              \<and> s' = s\<lparr>StorageBackend := StorageBackend s'\<rparr>)
       \<and> fst (deleteChartVersionRequestHandler R s' name version)
           = JSON 404 notFoundErrorResponse"
proof -
  let ?f = "ChartPackageFilenameFromNameVersion R name version"
  let ?p = "ProvenanceFilenameFromNameVersion R name version"
  let ?b2 = "case DeleteObject b1 ?p of Inl err \<Rightarrow> b1 | Inr b2 \<Rightarrow> b2"
  let ?s1 = "s\<lparr>StorageBackend := ?b2\<rparr>"
  have run: "(rsp, s') =
      (if 0 < CacheRefreshPeriod s then
         (case removeChartPackage R ?s1 ?f of
            (Some err, s2) \<Rightarrow> (JSON 500 (errorResponse err), s2)
          | (None, s2) \<Rightarrow> (JSON 200 objectDeletedResponse, s2))
       else (JSON 200 objectDeletedResponse, ?s1))"
    using del res by (simp add: deleteChartVersionRequestHandler_def Let_def)
  have bk: "StorageBackend s' = ?b2"
    using run removeChartPackage_backend [of R ?s1 ?f]
    by (auto split: if_splits prod.splits option.splits)
  have gone1: "find (\<lambda>ob. Path ob = ?f) (Objects b1) = None"
    using del by (rule DeleteObject_absent)
  have gone: "find (\<lambda>ob. Path ob = ?f) (Objects ?b2) = None"
    using gone1 DeleteObject_keeps_absent [OF gone1, of ?p]
    by (auto split: sum.splits)
  have second: "fst (deleteChartVersionRequestHandler R s' name version)
           = JSON 404 notFoundErrorResponse"
    using DeleteObject_fails_when_absent [OF gone] bk
    by (auto simp: deleteChartVersionRequestHandler_def)
  have c0: "CacheRefreshPeriod s \<le> 0 \<longrightarrow>
            rsp = JSON 200 objectDeletedResponse \<and> s' = s\<lparr>StorageBackend := StorageBackend s'\<rparr>"
    using run by auto
  have c1: "0 < CacheRefreshPeriod s \<and> findPath ?f (StorageCache s) = None
          \<longrightarrow> rsp = JSON 500 (errorResponse (notInCacheError ?f))
              \<and> s' = s\<lparr>StorageBackend := StorageBackend s'\<rparr>"
    using run by (auto simp: removeChartPackage_def notInCacheError_def)
  have c2: "0 < CacheRefreshPeriod s \<and> findPath ?f (StorageCache s) = Some i
          \<and> ChartVersionFromStorageObject R (StorageCache s ! i) = Inr cv
          \<longrightarrow> rsp = JSON 200 objectDeletedResponse
              \<and> Version cv \<notin> set (entryVersions s' (Name cv))
              \<and> StorageCache s' = take i (StorageCache s) @ drop (Suc i) (StorageCache s)"
  proof (intro impI, elim conjE)
    assume p: "0 < CacheRefreshPeriod s" and f: "findPath ?f (StorageCache s) = Some i"
      and d: "ChartVersionFromStorageObject R (StorageCache s ! i) = Inr cv"
    have "removeChartPackage R ?s1 ?f
           = (None, ?s1\<lparr>Heap := (Heap ?s1)(IndexFile (RepositoryIndex ?s1)
                                   := removeFromEntries cv (liveEntries ?s1)),
                      RepositoryIndex := (RepositoryIndex ?s1)\<lparr>Raw := []\<rparr>,
                      StorageCache := take i (StorageCache ?s1) @ drop (Suc i) (StorageCache ?s1)\<rparr>)"
      by (rule removeChartPackage_found) (simp_all add: f d)
    then have r: "rsp = JSON 200 objectDeletedResponse"
      and s': "s' = ?s1\<lparr>Heap := (Heap ?s1)(IndexFile (RepositoryIndex ?s1)
                                   := removeFromEntries cv (liveEntries ?s1)),
                      RepositoryIndex := (RepositoryIndex ?s1)\<lparr>Raw := []\<rparr>,
                      StorageCache := take i (StorageCache ?s1) @ drop (Suc i) (StorageCache ?s1)\<rparr>"
      using run p by simp_all
    have "liveEntries s' = removeFromEntries cv (liveEntries ?s1)"
      by (simp add: s' liveEntries_def)
    then have "Version cv \<notin> set (entryVersions s' (Name cv))"
      using removeFromEntries_gone [of cv "liveEntries ?s1"] by (simp add: entryVersions_def)
    then show "rsp = JSON 200 objectDeletedResponse
              \<and> Version cv \<notin> set (entryVersions s' (Name cv))
              \<and> StorageCache s' = take i (StorageCache s) @ drop (Suc i) (StorageCache s)"
      using r by (simp add: s')
  qed
  have c3: "0 < CacheRefreshPeriod s \<and> findPath ?f (StorageCache s) = Some i
          \<and> ChartVersionFromStorageObject R (StorageCache s ! i) = Inl ErrorInvalidChartPackage
          \<longrightarrow> rsp = JSON 200 objectDeletedResponse
              \<and> liveEntries s' = liveEntries s
              \<and> StorageCache s' = take i (StorageCache s) @ drop (Suc i) (StorageCache s)"
    using run
    by (auto simp: removeChartPackage_def removeIndexObject_def getObjectChartVersion_def
          checkInvalidChartPackageError_def liveEntries_def)
  have c4: "0 < CacheRefreshPeriod s \<and> findPath ?f (StorageCache s) = Some i
          \<and> ChartVersionFromStorageObject R (StorageCache s ! i) = Inl err
          \<and> err \<noteq> ErrorInvalidChartPackage
          \<longrightarrow> rsp = JSON 500 (errorResponse err)
              \<and> s' = s\<lparr>StorageBackend := StorageBackend s'\<rparr>"
    using run
    by (auto simp: removeChartPackage_def removeIndexObject_def getObjectChartVersion_def
          checkInvalidChartPackageError_def)
  show ?thesis
    using bk gone second c0 c1 c2 c3 c4 by simp
qed

theorem delete_version_outcomes_witness:
  "DeleteObject (StorageBackend sTwoVersions)
     (ChartPackageFilenameFromNameVersion demoRepo ''alpha'' ''1.0'')
     = Inr ((StorageBackend sTwoVersions)\<lparr>Objects := [alpha20]\<rparr>)
   \<and> 0 < CacheRefreshPeriod sTwoVersions
   \<and> findPath ''alpha-1.0.tgz'' (StorageCache sTwoVersions) = Some 0
   \<and> ChartVersionFromStorageObject demoRepo (StorageCache sTwoVersions ! 0) = Inr cvAlpha10
   \<and> fst (deleteChartVersionRequestHandler demoRepo sTwoVersions ''alpha'' ''1.0'')
       = JSON 200 objectDeletedResponse
   \<and> entryVersions sTwoVersions ''alpha'' = [''2.0'', ''1.0'']
   \<and> entryVersions
        (snd (deleteChartVersionRequestHandler demoRepo sTwoVersions ''alpha'' ''1.0''))
        ''alpha'' = [''2.0'']
   \<and> StorageCache
        (snd (deleteChartVersionRequestHandler demoRepo sTwoVersions ''alpha'' ''1.0''))
       = [alpha20]
   \<and> fst (deleteChartVersionRequestHandler demoRepo
             (snd (deleteChartVersionRequestHandler demoRepo sTwoVersions ''alpha'' ''1.0''))
             ''alpha'' ''1.0'')
       = JSON 404 notFoundErrorResponse"
proof -
  have del: "DeleteObject (StorageBackend sTwoVersions)
               (ChartPackageFilenameFromNameVersion demoRepo ''alpha'' ''1.0'')
               = Inr ((StorageBackend sTwoVersions)\<lparr>Objects := [alpha20]\<rparr>)"
    by (simp add: sTwoVersions_def demo_defs DeleteObject_def)
  have res: "deleteChartVersionRequestHandler demoRepo sTwoVersions ''alpha'' ''1.0''
               = (fst (deleteChartVersionRequestHandler demoRepo sTwoVersions ''alpha'' ''1.0''),
                  snd (deleteChartVersionRequestHandler demoRepo sTwoVersions ''alpha'' ''1.0''))"
    by simp
  have pre: "0 < CacheRefreshPeriod sTwoVersions
             \<and> findPath ''alpha-1.0.tgz'' (StorageCache sTwoVersions) = Some 0
             \<and> ChartVersionFromStorageObject demoRepo (StorageCache sTwoVersions ! 0)
                 = Inr cvAlpha10
             \<and> entryVersions sTwoVersions ''alpha'' = [''2.0'', ''1.0'']"
    by (simp add: sTwoVersions_def demo_defs entryVersions_def liveEntries_def)
  have run: "fst (deleteChartVersionRequestHandler demoRepo sTwoVersions ''alpha'' ''1.0'')
               = JSON 200 objectDeletedResponse
             \<and> entryVersions
                  (snd (deleteChartVersionRequestHandler demoRepo sTwoVersions ''alpha'' ''1.0''))
                  ''alpha'' = [''2.0'']
             \<and> StorageCache
                  (snd (deleteChartVersionRequestHandler demoRepo sTwoVersions ''alpha'' ''1.0''))
                 = [alpha20]"
    by (simp add: sTwoVersions_def demo_defs reconcile_defs upload_defs entryVersions_def
          Let_def)
  show ?thesis
    using delete_version_outcomes [OF del res, of 0 cvAlpha10] del pre run by simp
qed

text \<open>The claim as stated fails in both modes. In periodic-refresh mode, a package that
  is in storage and not yet in \<open>StorageCache\<close> is deleted from storage and the answer
  is 500. In refresh-on-read mode, the answer is 200 and the index still lists the
  version.\<close>

theorem delete_of_uncached_package_answers_500:
  "GetObject (StorageBackend sOutOfBand) ''alpha-1.0.tgz'' = Inr alpha10
   \<and> fst (deleteChartVersionRequestHandler demoRepo sOutOfBand ''alpha'' ''1.0'')
       = JSON 500 (errorResponse (notInCacheError ''alpha-1.0.tgz''))
   \<and> Objects (StorageBackend
        (snd (deleteChartVersionRequestHandler demoRepo sOutOfBand ''alpha'' ''1.0''))) = []
   \<and> fst (deleteChartVersionRequestHandler demoRepo sTwoVersionsOnRead ''alpha'' ''1.0'')
       = JSON 200 objectDeletedResponse
   \<and> entryVersions
        (snd (deleteChartVersionRequestHandler demoRepo sTwoVersionsOnRead ''alpha'' ''1.0''))
        ''alpha'' = [''2.0'', ''1.0'']"
  by (simp add: sOutOfBand_def sTwoVersionsOnRead_def demo_defs reconcile_defs upload_defs
        entryVersions_def notInCacheError_def Let_def)

subsection \<open>The conflict rule of uploads\<close>

lemma storeFormFiles_status:
  "statusOf (fst (storeFormFiles R ppFiles storedFiles s)) = 201
   \<or> statusOf (fst (storeFormFiles R ppFiles storedFiles s)) = 500"
proof (induction ppFiles arbitrary: storedFiles s)
  case Nil
  show ?case by simp
next
  case (Cons ppf ppFiles)
  obtain e st s1 where r: "storeFormFile R ppf storedFiles s = (e, st, s1)"
    by (cases "storeFormFile R ppf storedFiles s") auto
  show ?case using r Cons.IH [of st s1] by (cases e) auto
qed

lemma storeFormFiles_not_409:
  "statusOf (fst (storeFormFiles R ppFiles storedFiles s)) \<noteq> 409"
  using storeFormFiles_status [of R ppFiles storedFiles s] by auto

lemma extract_status_409:
  "\<not> AllowOverwrite s \<Longrightarrow>
   (fst (snd (extractAndValidateFormFile s req field fn)) = 409)
     = fieldConflict s req field fn"
  by (auto simp: extractAndValidateFormFile_def fieldConflict_def objectExists_def
      split: formFile.splits sum.splits)

lemma extract_error_iff:
  "\<not> AllowOverwrite s \<Longrightarrow>
   (snd (snd (extractAndValidateFormFile s req field fn)) \<noteq> None)
     = (fieldInvalid req field fn \<or> fieldConflict s req field fn)"
  by (auto simp: extractAndValidateFormFile_def fieldConflict_def fieldInvalid_def objectExists_def
      split: formFile.splits sum.splits)

lemma extractFormFiles_step:
  "extractAndValidateFormFile s req (fst ff) (snd ff) = (f, st, e) \<Longrightarrow>
   extractFormFiles s req (ff # ffp) acc
     = (case e of
          Some err \<Rightarrow> Inl (st, err)
        | None \<Rightarrow> extractFormFiles s req ffp (case f of None \<Rightarrow> acc | Some p \<Rightarrow> acc @ [p]))"
  by (cases e; cases f; simp)

lemma fieldConflict_valid: "fieldConflict s req field fn \<Longrightarrow> \<not> fieldInvalid req field fn"
  by (auto simp: fieldConflict_def fieldInvalid_def split: formFile.splits sum.splits)

lemma multipart_409:
  assumes "\<not> AllowOverwrite s"
  shows "(statusOf (fst (postPackageAndProvenanceRequestHandler R s req)) = 409)
       = (fieldConflict s req (ChartPostFormFieldName s) (ChartPackageFilenameFromContent R)
          \<or> (\<not> fieldInvalid req (ChartPostFormFieldName s) (ChartPackageFilenameFromContent R)
             \<and> fieldConflict s req (ProvPostFormFieldName s) (ProvenanceFilenameFromContent R)))"
proof -
  let ?c = "ChartPostFormFieldName s" and ?cf = "ChartPackageFilenameFromContent R"
  let ?p = "ProvPostFormFieldName s" and ?pf = "ProvenanceFilenameFromContent R"
  obtain f1 st1 e1 where x1: "extractAndValidateFormFile s req ?c ?cf = (f1, st1, e1)"
    by (cases "extractAndValidateFormFile s req ?c ?cf") auto
  obtain f2 st2 e2 where x2: "extractAndValidateFormFile s req ?p ?pf = (f2, st2, e2)"
    by (cases "extractAndValidateFormFile s req ?p ?pf") auto
  have a1: "(st1 = 409) = fieldConflict s req ?c ?cf"
    using extract_status_409 [OF assms, of req ?c ?cf] x1 by simp
  have a2: "(st2 = 409) = fieldConflict s req ?p ?pf"
    using extract_status_409 [OF assms, of req ?p ?pf] x2 by simp
  have b1: "(e1 \<noteq> None) = (fieldInvalid req ?c ?cf \<or> fieldConflict s req ?c ?cf)"
    using extract_error_iff [OF assms, of req ?c ?cf] x1 by simp
  have b2: "(e2 \<noteq> None) = (fieldInvalid req ?p ?pf \<or> fieldConflict s req ?p ?pf)"
    using extract_error_iff [OF assms, of req ?p ?pf] x2 by simp
  define acc1 where "acc1 = (case f1 of None \<Rightarrow> [] | Some p \<Rightarrow> [] @ [p])"
  define acc2 where "acc2 = (case f2 of None \<Rightarrow> acc1 | Some p \<Rightarrow> acc1 @ [p])"
  have ex: "extractFormFiles s req [(?c, ?cf), (?p, ?pf)] []
      = (case e1 of
           Some err \<Rightarrow> Inl (st1, err)
         | None \<Rightarrow> (case e2 of Some err \<Rightarrow> Inl (st2, err) | None \<Rightarrow> Inr acc2))"
    using extractFormFiles_step [of s req "(?c, ?cf)" f1 st1 e1 "[(?p, ?pf)]" "[]"]
          extractFormFiles_step [of s req "(?p, ?pf)" f2 st2 e2 "[]" acc1] x1 x2
    by (simp add: acc1_def acc2_def split: option.splits)
  show ?thesis
  proof (cases e1)
    case (Some err)
    then have "statusOf (fst (postPackageAndProvenanceRequestHandler R s req)) = st1"
      by (simp add: postPackageAndProvenanceRequestHandler_def ex del: extractFormFiles.simps)
    moreover have "fieldInvalid req ?c ?cf \<or> fieldConflict s req ?c ?cf"
      using b1 Some by simp
    ultimately show ?thesis using a1 fieldConflict_valid [of s req ?c ?cf] by auto
  next
    case None
    note n1 = None
    then have nc1: "\<not> fieldConflict s req ?c ?cf" "\<not> fieldInvalid req ?c ?cf"
      using b1 by auto
    show ?thesis
    proof (cases e2)
      case (Some err)
      then have "statusOf (fst (postPackageAndProvenanceRequestHandler R s req)) = st2"
        using n1 by (simp add: postPackageAndProvenanceRequestHandler_def ex del: extractFormFiles.simps)
      then show ?thesis using a2 nc1 by simp
    next
      case None
      then have nc2: "\<not> fieldConflict s req ?p ?pf" using b2 by auto
      have "statusOf (fst (postPackageAndProvenanceRequestHandler R s req)) \<noteq> 409"
        using n1 None storeFormFiles_not_409 [of R acc2 "[]" s]
        by (simp add: postPackageAndProvenanceRequestHandler_def ex del: extractFormFiles.simps)
      then show ?thesis using nc1 nc2 by simp
    qed
  qed
qed

lemma raw_conflict:
  assumes "\<not> AllowOverwrite s"
  shows "(fst (postPackageRequestHandler R s rawData) = JSON 500 alreadyExistsErrorResponse)
           = rawConflict R s rawData
       \<and> (rawConflict R s rawData \<longrightarrow> snd (postPackageRequestHandler R s rawData) = s)
       \<and> statusOf (fst (postPackageRequestHandler R s rawData)) \<noteq> 409"
  using assms
  by (auto simp: postPackageRequestHandler_def rawConflict_def objectExists_def Let_def
      split: sum.splits prod.splits option.splits if_splits)

text \<open>
  Claim C3 (amended). With \<open>AllowOverwrite = False\<close>: a multipart upload is answered
  409 if and only if the package field carries a file whose derived filename exists in
  storage, or the package field is absent or accepted and the provenance field carries
  such a file, existence being that \<open>GetObject\<close> succeeds. A raw upload whose derived
  filename exists in storage is answered 500 with the body "file already exists", with
  the server unchanged, and no raw upload is answered 409. Any error of \<open>GetObject\<close>,
  \<open>NotFound\<close> or not, lets the create go on: the form file is accepted, and the raw
  upload is stored.
\<close>

theorem upload_conflict_rule:
  assumes "\<not> AllowOverwrite s"
  shows "(statusOf (fst (postRequestHandler R s (Multipart req))) = 409)
           = (fieldConflict s req (ChartPostFormFieldName s) (ChartPackageFilenameFromContent R)
              \<or> (\<not> fieldInvalid req (ChartPostFormFieldName s)
                      (ChartPackageFilenameFromContent R)
                 \<and> fieldConflict s req (ProvPostFormFieldName s)
                      (ProvenanceFilenameFromContent R)))
       \<and> (fst (postRequestHandler R s (RawBody rawData)) = JSON 500 alreadyExistsErrorResponse)
           = rawConflict R s rawData
       \<and> (rawConflict R s rawData \<longrightarrow> snd (postRequestHandler R s (RawBody rawData)) = s)
       \<and> statusOf (fst (postRequestHandler R s (RawBody rawData))) \<noteq> 409
       \<and> (GetObject (StorageBackend s) fname = Inl err \<and> req field = FileContent content
            \<and> fn content = Inr fname
          \<longrightarrow> extractAndValidateFormFile s req field fn
               = (Some \<lparr>ppf_filename = fname, ppf_content = content, ppf_field = field\<rparr>,
                  200, None))
       \<and> (GetObject (StorageBackend s) fname = Inl err
            \<and> ChartPackageFilenameFromContent R content = Inr fname
            \<and> PutObject (StorageBackend s) fname content = Inr b
            \<and> CacheRefreshPeriod s \<le> 0
          \<longrightarrow> postRequestHandler R s (RawBody (Inr content))
               = (JSON 201 objectSavedResponse, s\<lparr>StorageBackend := b\<rparr>))"
proof -
  have ex: "GetObject (StorageBackend s) fname = Inl err \<and> req field = FileContent content
            \<and> fn content = Inr fname
          \<longrightarrow> extractAndValidateFormFile s req field fn
               = (Some \<lparr>ppf_filename = fname, ppf_content = content, ppf_field = field\<rparr>,
                  200, None)"
    by (simp add: extractAndValidateFormFile_def)
  have go: "GetObject (StorageBackend s) fname = Inl err
            \<and> ChartPackageFilenameFromContent R content = Inr fname
            \<and> PutObject (StorageBackend s) fname content = Inr b
            \<and> CacheRefreshPeriod s \<le> 0
          \<longrightarrow> postRequestHandler R s (RawBody (Inr content))
               = (JSON 201 objectSavedResponse, s\<lparr>StorageBackend := b\<rparr>)"
    by (simp add: postRequestHandler_def postPackageRequestHandler_def)
  show ?thesis
    using multipart_409 [OF assms, of R req] raw_conflict [OF assms, of R rawData] ex go
    by (simp add: postRequestHandler_def)
qed

theorem upload_conflict_rule_witness:
  "\<not> AllowOverwrite sExists
   \<and> fieldConflict sExists formChart ''chart'' (ChartPackageFilenameFromContent demoRepo)
   \<and> statusOf (fst (postRequestHandler demoRepo sExists (Multipart formChart))) = 409
   \<and> rawConflict demoRepo sExists (Inr [0, 1])
   \<and> postRequestHandler demoRepo sExists (RawBody (Inr [0, 1]))
       = (JSON 500 alreadyExistsErrorResponse, sExists)
   \<and> GetObject (StorageBackend sExists) ''beta-1.0.tgz'' = Inl NotFound
   \<and> fst (postRequestHandler demoRepo sExists (RawBody (Inr [1, 1])))
       = JSON 201 objectSavedResponse"
proof -
  have h: "\<not> AllowOverwrite sExists"
    by (simp add: sExists_def demo_defs)
  have c: "fieldConflict sExists formChart ''chart'' (ChartPackageFilenameFromContent demoRepo)
           \<and> rawConflict demoRepo sExists (Inr [0, 1])
           \<and> ChartPostFormFieldName sExists = ''chart''"
    by (simp add: sExists_def formChart_def demo_defs fieldConflict_def rawConflict_def
          objectExists_def GetObject_def)
  have n: "GetObject (StorageBackend sExists) ''beta-1.0.tgz'' = Inl NotFound
           \<and> ChartPackageFilenameFromContent demoRepo [1, 1] = Inr ''beta-1.0.tgz''
           \<and> PutObject (StorageBackend sExists) ''beta-1.0.tgz'' [1, 1]
               = Inr ((StorageBackend sExists)
                        \<lparr>Objects := [alpha10, \<lparr>Path = ''beta-1.0.tgz'', Content = [1, 1],
                                               Meta = 10\<rparr>],
                          Clock := 11\<rparr>)
           \<and> CacheRefreshPeriod sExists \<le> 0"
    by (simp add: sExists_def demo_defs GetObject_def PutObject_def)
  have raw: "postRequestHandler demoRepo sExists (RawBody (Inr [0, 1]))
               = (JSON 500 alreadyExistsErrorResponse, sExists)"
    using upload_conflict_rule [OF h, of demoRepo formChart "Inr [0, 1]"] c
    by (simp add: prod_eq_iff)
  show ?thesis
    using upload_conflict_rule [OF h, of demoRepo formChart "Inr [0, 1]"]
          upload_conflict_rule
            [OF h, where R = demoRepo and fname = "''beta-1.0.tgz''" and err = NotFound
               and content = "[1, 1]"]
          h c n raw
    by simp
qed

text \<open>The claim as stated fails for the raw upload: with \<open>AllowOverwrite = False\<close>
  and \<^verbatim>\<open>alpha-1.0.tgz\<close> in storage, the upload of that package is answered 500.\<close>

theorem raw_upload_conflict_is_500:
  "\<not> AllowOverwrite sExists
   \<and> ChartPackageFilenameFromContent demoRepo [0, 1] = Inr ''alpha-1.0.tgz''
   \<and> GetObject (StorageBackend sExists) ''alpha-1.0.tgz'' = Inr alpha10
   \<and> fst (postRequestHandler demoRepo sExists (RawBody (Inr [0, 1])))
       = JSON 500 alreadyExistsErrorResponse
   \<and> statusOf (fst (postRequestHandler demoRepo sExists (RawBody (Inr [0, 1])))) = 500"
  by (simp add: sExists_def demo_defs reconcile_defs upload_defs Let_def)

subsection \<open>Incremental updates without regeneration\<close>

text \<open>
  Claim C5 (the code departs from it). In periodic-refresh mode, with \<open>Raw\<close> the
  serialization of the entries, a raw upload is answered 201 and a delete is answered
  200; neither \<open>addChartPackage\<close> nor \<open>removeChartPackage\<close> nor a handler calls
  \<open>Regenerate\<close>. When the handler returns, \<open>Raw\<close> is not the serialization of
  the current entries: it is what \<open>AddEntry\<close> and \<open>RemoveEntry\<close> left, which is
  empty, and the index file served to the next reader is empty.
\<close>

theorem upload_does_not_regenerate:
  "0 < CacheRefreshPeriod sPeriodic
   \<and> I1 demoRepo sPeriodic
   \<and> Raw (RepositoryIndex sPeriodic) = [1, 0]
   \<and> fst (postPackageRequestHandler demoRepo sPeriodic (Inr [0, 1]))
       = JSON 201 objectSavedResponse
   \<and> Raw (RepositoryIndex (snd (postPackageRequestHandler demoRepo sPeriodic (Inr [0, 1])))) = []
   \<and> Serialize demoRepo
        (liveEntries (snd (postPackageRequestHandler demoRepo sPeriodic (Inr [0, 1]))))
       = Inr [2, 0]
   \<and> fst (getIndexFileRequestHandler demoRepo
             (snd (postPackageRequestHandler demoRepo sPeriodic (Inr [0, 1]))))
       = Data 200 IndexFileContentType []
   \<and> 0 < CacheRefreshPeriod sTwoVersions
   \<and> Raw (RepositoryIndex sTwoVersions) = [3, 0]
   \<and> Serialize demoRepo (liveEntries sTwoVersions) = Inr [3, 0]
   \<and> fst (deleteChartVersionRequestHandler demoRepo sTwoVersions ''alpha'' ''1.0'')
       = JSON 200 objectDeletedResponse
   \<and> Raw (RepositoryIndex
             (snd (deleteChartVersionRequestHandler demoRepo sTwoVersions ''alpha'' ''1.0'')))
       = []
   \<and> Serialize demoRepo
        (liveEntries
           (snd (deleteChartVersionRequestHandler demoRepo sTwoVersions ''alpha'' ''1.0'')))
       = Inr [2, 0]"
  by (simp add: sPeriodic_def sTwoVersions_def demo_defs reconcile_defs upload_defs I1_def
        Let_def)

end
